theory Spec2Isabelle
  imports
    Complex_Main
    "HOL-Library.Sublist"
    "HOL-Library.Char_ord"
    "HOL-Library.List_Lexorder"
    "HOL-Library.Product_Lexorder"
    "HOL-Library.AList"
    "HOL-Library.Multiset"
begin

chapter \<open>BrainDrive protocol runtime: router, registry, persistence, approval gate, async worker\<close>

text \<open>
  A shallow embedding of the Python sources of the BrainDrive protocol repository:
  the MVP runtime (\<^verbatim>\<open>braindrive_runtime/{protocol,persistence,metadata,registry,config,router}.py\<close>,
  \<^verbatim>\<open>nodes/approval_gate.py\<close>) and the asynchronous pipeline of Proof-of-Concept-3
  (\<^verbatim>\<open>shared/bdp.py\<close>, \<^verbatim>\<open>workers/echo_worker/worker.py\<close>, \<^verbatim>\<open>router/router_service.py\<close>).
  All definitions come first; the lemmas and theorems about them follow.

  Conventions of the model.
  \<^item> A Python value that travels as JSON is a \<open>json\<close>; a \<^verbatim>\<open>dict\<close> is an association
    list in insertion order (\<open>map_of\<close> reads it, \<open>AList.update\<close> writes it: an existing
    key is overwritten in place, a new key is appended), as Python dictionaries behave.
  \<^item> Strings are \<open>string\<close>; \<^verbatim>\<open>lower\<close> and \<^verbatim>\<open>strip\<close> are modelled on ASCII text.
  \<^item> A raised exception is a value \<open>Inl e\<close> of a sum type, with the state reached so far.
  \<^item> Wall-clock readings, fresh UUIDs, measured latencies and the answers of remote
    services are inputs of the functions that consume them.
\<close>

section \<open>Python values and built-ins\<close>

datatype json =
    JNull
  | JBool bool
  | JInt int
  | JFloat real
  | JStr string
  | JList "json list"
  | JObj "(string \<times> json) list"

type_synonym dict = "(string \<times> json) list"

datatype py_error =
    ValueError string
  | TypeError string
  | AttributeError string
  | KeyError string
  | RuntimeError string

text \<open>Truth value of a Python object (\<^verbatim>\<open>bool(x)\<close>, \<^verbatim>\<open>if x\<close>, \<^verbatim>\<open>x or y\<close>).\<close>

fun truthy :: "json \<Rightarrow> bool" where
  "truthy JNull = False"
| "truthy (JBool b) = b"
| "truthy (JInt n) = (n \<noteq> 0)"
| "truthy (JFloat r) = (r \<noteq> 0)"
| "truthy (JStr s) = (s \<noteq> [])"
| "truthy (JList xs) = (xs \<noteq> [])"
| "truthy (JObj kvs) = (kvs \<noteq> [])"

text \<open>\<^verbatim>\<open>isinstance(x, dict)\<close> and \<^verbatim>\<open>isinstance(x, str)\<close>.\<close>

fun is_dict :: "json \<Rightarrow> bool" where
  "is_dict (JObj kvs) = True"
| "is_dict v = False"

fun is_str :: "json \<Rightarrow> bool" where
  "is_str (JStr s) = True"
| "is_str v = False"

text \<open>\<^verbatim>\<open>d.get(k)\<close> (\<open>None\<close> is \<open>JNull\<close>) and \<^verbatim>\<open>d.get(k, default)\<close> on a dictionary.\<close>

definition dict_get :: "dict \<Rightarrow> string \<Rightarrow> json" where
  "dict_get d k = (case map_of d k of Some v \<Rightarrow> v | None \<Rightarrow> JNull)"

definition dict_get_default :: "dict \<Rightarrow> string \<Rightarrow> json \<Rightarrow> json" where
  "dict_get_default d k dflt = (case map_of d k of Some v \<Rightarrow> v | None \<Rightarrow> dflt)"

text \<open>\<^verbatim>\<open>k in d\<close>, \<^verbatim>\<open>d[k] = v\<close> and \<^verbatim>\<open>d.setdefault(k, v)\<close> (the dictionary after the call).\<close>

definition dict_has :: "dict \<Rightarrow> string \<Rightarrow> bool" where
  "dict_has d k = (map_of d k \<noteq> None)"

definition dict_set :: "dict \<Rightarrow> string \<Rightarrow> json \<Rightarrow> dict" where
  "dict_set d k v = AList.update k v d"

definition dict_setdefault :: "dict \<Rightarrow> string \<Rightarrow> json \<Rightarrow> dict" where
  "dict_setdefault d k v = (if dict_has d k then d else dict_set d k v)"

text \<open>\<^verbatim>\<open>str.lower()\<close> on ASCII letters.\<close>

definition lower_char :: "char \<Rightarrow> char" where
  "lower_char c =
     (case map_of (zip ''ABCDEFGHIJKLMNOPQRSTUVWXYZ'' ''abcdefghijklmnopqrstuvwxyz'') c of
        Some d \<Rightarrow> d
      | None \<Rightarrow> c)"

definition lower :: "string \<Rightarrow> string" where
  "lower s = map lower_char s"

text \<open>
  \<^verbatim>\<open>str.strip()\<close>: the ASCII characters Python counts as white space are
  tab, line feed, vertical tab, form feed, carriage return, the separators 28 to 31 and space.
\<close>

definition is_space :: "char \<Rightarrow> bool" where
  "is_space c = ((of_char c :: nat) \<in> {9, 10, 11, 12, 13, 28, 29, 30, 31, 32})"

definition strip :: "string \<Rightarrow> string" where
  "strip s = rev (dropWhile is_space (rev (dropWhile is_space s)))"

text \<open>\<^verbatim>\<open>s.startswith(p)\<close> is \<open>prefix p s\<close>; \<^verbatim>\<open>t in s\<close> on strings is \<open>sublist t s\<close>.\<close>

text \<open>\<^verbatim>\<open>s.split(sep)\<close> for a one-character separator: always at least one part.\<close>

fun split_on :: "char \<Rightarrow> string \<Rightarrow> string list" where
  "split_on sep [] = [[]]"
| "split_on sep (c # cs) =
     (if c = sep then [] # split_on sep cs
      else (case split_on sep cs of
              p # ps \<Rightarrow> (c # p) # ps
            | [] \<Rightarrow> [[c]]))"

text \<open>
  \<^verbatim>\<open>int(s)\<close> for a string: optional surrounding white space, an optional sign, then
  decimal digits, where single underscores may separate digits. Anything else raises
  \<^verbatim>\<open>ValueError\<close> (here \<open>None\<close>).
\<close>

definition digit_val :: "char \<Rightarrow> nat option" where
  "digit_val c = map_of (zip ''0123456789'' [0, 1, 2, 3, 4, 5, 6, 7, 8, 9]) c"

fun digits_val :: "nat \<Rightarrow> bool \<Rightarrow> string \<Rightarrow> nat option" where
  "digits_val acc after_digit [] = (if after_digit then Some acc else None)"
| "digits_val acc after_digit (c # cs) =
     (if c = CHR ''_'' then (if after_digit then digits_val acc False cs else None)
      else (case digit_val c of
              None \<Rightarrow> None
            | Some d \<Rightarrow> digits_val (acc * 10 + d) True cs))"

definition int_of_string :: "string \<Rightarrow> int option" where
  "int_of_string s =
     (case strip s of
        [] \<Rightarrow> None
      | c # cs \<Rightarrow>
          if c = CHR ''-'' then map_option (\<lambda>n. - int n) (digits_val 0 False cs)
          else if c = CHR ''+'' then map_option int (digits_val 0 False cs)
          else map_option int (digits_val 0 False (c # cs)))"

text \<open>
  \<^verbatim>\<open>int(x)\<close> for a JSON value: integers and booleans convert, a float is truncated
  towards zero, a string is parsed, \<open>None\<close>, lists and dictionaries raise \<^verbatim>\<open>TypeError\<close>.
\<close>

fun py_int :: "json \<Rightarrow> py_error + int" where
  "py_int (JInt n) = Inr n"
| "py_int (JBool b) = Inr (if b then 1 else 0)"
| "py_int (JFloat r) = Inr (if 0 \<le> r then \<lfloor>r\<rfloor> else \<lceil>r\<rceil>)"
| "py_int (JStr s) =
     (case int_of_string s of
        Some n \<Rightarrow> Inr n
      | None \<Rightarrow> Inl (ValueError ''invalid literal for int()''))"
| "py_int v = Inl (TypeError ''int() argument must be a string or a number'')"

text \<open>
  \<^verbatim>\<open>str(x)\<close>: exact for strings, \<open>None\<close>, booleans and integers. The textual form
  Python gives a float, a list or a dictionary is not modelled; it is the parameter
  \<open>repr\<close>, so that nothing proved below depends on it.
\<close>

fun nat_digits :: "nat \<Rightarrow> string" where
  "nat_digits n =
     (if n < 10 then [''0123456789'' ! n]
      else nat_digits (n div 10) @ [''0123456789'' ! (n mod 10)])"

definition int_str :: "int \<Rightarrow> string" where
  "int_str n = (if n < 0 then CHR ''-'' # nat_digits (nat (- n)) else nat_digits (nat n))"

fun py_str :: "(json \<Rightarrow> string) \<Rightarrow> json \<Rightarrow> string" where
  "py_str repr (JStr s) = s"
| "py_str repr JNull = ''None''"
| "py_str repr (JBool b) = (if b then ''True'' else ''False'')"
| "py_str repr (JInt n) = int_str n"
| "py_str repr v = repr v"

section \<open>Persistence (\<^verbatim>\<open>persistence.py\<close>)\<close>

definition SENSITIVE_KEYS :: "string list" where
  "SENSITIVE_KEYS = [''api_key'', ''authorization'', ''token'', ''secret'']"

text \<open>The test of \<^verbatim>\<open>_scrub_sensitive\<close> on a key:
  \<^verbatim>\<open>any(token in key.lower() for token in SENSITIVE_KEYS)\<close>.\<close>

definition is_sensitive :: "string \<Rightarrow> bool" where
  "is_sensitive key =
     (let lowered = lower key in list_ex (\<lambda>token. sublist token lowered) SENSITIVE_KEYS)"

fun scrub_sensitive :: "json \<Rightarrow> json" where
  "scrub_sensitive (JObj kvs) =
     JObj (map (\<lambda>(key, item).
                  if is_sensitive key then (key, JStr ''<redacted>'')
                  else (key, scrub_sensitive item)) kvs)"
| "scrub_sensitive (JList xs) = JList (map scrub_sensitive xs)"
| "scrub_sensitive v = v"

text \<open>
  The data root on disk: \<^verbatim>\<open>logs/<name>.jsonl\<close> is the list of lines written so far,
  \<^verbatim>\<open>state/<name>.json\<close> the last snapshot. \<^verbatim>\<open>json.dumps\<close> is injective on JSON values,
  so a line or a file is represented by the value that was serialised. File-system
  failures are not modelled.
\<close>

record disk =
  log_lines :: "string \<Rightarrow> json list"
  state_files :: "string \<Rightarrow> json option"

definition append_log :: "string \<Rightarrow> json \<Rightarrow> disk \<Rightarrow> disk" where
  "append_log name item d =
     d\<lparr>log_lines := (log_lines d)(name := log_lines d name @ [scrub_sensitive item])\<rparr>"

definition emit_event :: "string \<Rightarrow> string \<Rightarrow> string \<Rightarrow> json \<Rightarrow> disk \<Rightarrow> disk" where
  "emit_event ts channel event_type payload d =
     append_log channel
       (JObj [(''ts'', JStr ts), (''event_type'', JStr event_type), (''payload'', payload)]) d"

definition load_state :: "string \<Rightarrow> json \<Rightarrow> disk \<Rightarrow> json" where
  "load_state name dflt d = (case state_files d name of None \<Rightarrow> dflt | Some v \<Rightarrow> v)"

definition save_state :: "string \<Rightarrow> json \<Rightarrow> disk \<Rightarrow> disk" where
  "save_state name v d = d\<lparr>state_files := (state_files d)(name \<mapsto> scrub_sensitive v)\<rparr>"

text \<open>
  The specification's wording of the scrubber, as two predicates that do not mention
  \<open>scrub_sensitive\<close>: \<open>no_raw_secret w\<close> says that in \<open>w\<close> every sensitive key, at any
  depth of dictionaries and lists, holds the literal \<^verbatim>\<open><redacted>\<close>; \<open>scrubbed_of v w\<close>
  says that \<open>w\<close> is \<open>v\<close> with exactly those values replaced and everything else kept.
\<close>

fun no_raw_secret :: "json \<Rightarrow> bool" where
  "no_raw_secret (JObj kvs) =
     list_all (\<lambda>(key, item).
                 if is_sensitive key then item = JStr ''<redacted>'' else no_raw_secret item) kvs"
| "no_raw_secret (JList xs) = list_all no_raw_secret xs"
| "no_raw_secret v = True"

fun scrubbed_of :: "json \<Rightarrow> json \<Rightarrow> bool" where
  "scrubbed_of (JObj kvs) w =
     (case w of
        JObj kws \<Rightarrow>
          list_all2 (\<lambda>(key, item) (key', item').
             key' = key \<and>
             (if is_sensitive key then item' = JStr ''<redacted>'' else scrubbed_of item item'))
            kvs kws
      | _ \<Rightarrow> False)"
| "scrubbed_of (JList xs) w =
     (case w of JList ys \<Rightarrow> list_all2 scrubbed_of xs ys | _ \<Rightarrow> False)"
| "scrubbed_of v w = (w = v)"

section \<open>Constants (\<^verbatim>\<open>constants.py\<close>)\<close>

text \<open>
  Modelled from the spec: the module \<^verbatim>\<open>braindrive_runtime/constants.py\<close> is not among the
  sources. The protocol version is the fixed string \<^verbatim>\<open>0.1\<close> of the data model, each error
  code is the string of its own name (as the tests compare them), and the model providers
  are the two the configuration resolver and the tests name.
\<close>

definition PROTOCOL_VERSION :: string where "PROTOCOL_VERSION = ''0.1''"

definition E_BAD_MESSAGE :: string where "E_BAD_MESSAGE = ''E_BAD_MESSAGE''"
definition E_UNSUPPORTED_PROTOCOL :: string where "E_UNSUPPORTED_PROTOCOL = ''E_UNSUPPORTED_PROTOCOL''"
definition E_NO_ROUTE :: string where "E_NO_ROUTE = ''E_NO_ROUTE''"
definition E_REQUIRED_EXTENSION_MISSING :: string where
  "E_REQUIRED_EXTENSION_MISSING = ''E_REQUIRED_EXTENSION_MISSING''"
definition E_CONFIRMATION_REQUIRED :: string where "E_CONFIRMATION_REQUIRED = ''E_CONFIRMATION_REQUIRED''"
definition E_NODE_UNAVAILABLE :: string where "E_NODE_UNAVAILABLE = ''E_NODE_UNAVAILABLE''"
definition E_NODE_TIMEOUT :: string where "E_NODE_TIMEOUT = ''E_NODE_TIMEOUT''"
definition E_NODE_ERROR :: string where "E_NODE_ERROR = ''E_NODE_ERROR''"
definition E_NODE_REG_INVALID :: string where "E_NODE_REG_INVALID = ''E_NODE_REG_INVALID''"
definition E_INTERNAL :: string where "E_INTERNAL = ''E_INTERNAL''"

definition MODEL_PROVIDER_OPENROUTER :: string where "MODEL_PROVIDER_OPENROUTER = ''openrouter''"
definition MODEL_PROVIDER_OLLAMA :: string where "MODEL_PROVIDER_OLLAMA = ''ollama''"
definition MODEL_PROVIDERS :: "string list" where
  "MODEL_PROVIDERS = [MODEL_PROVIDER_OPENROUTER, MODEL_PROVIDER_OLLAMA]"

section \<open>Capability metadata and node descriptors (\<^verbatim>\<open>metadata.py\<close>)\<close>

text \<open>\<^verbatim>\<open>parse_version\<close>: the first three dot-separated tokens, a token that is not an
  integer literal counting as 0, missing tokens as 0.\<close>

definition parse_version :: "string \<Rightarrow> int \<times> int \<times> int" where
  "parse_version version =
     (let parts = split_on CHR ''.'' version;
          vals = map (\<lambda>token. case int_of_string token of Some n \<Rightarrow> n | None \<Rightarrow> 0) (take 3 parts);
          padded = vals @ replicate (3 - length vals) 0
      in (padded ! 0, padded ! 1, padded ! 2))"

record CapabilityMetadata =
  name :: string
  description :: string
  input_schema :: json
  risk_class :: string
  required_extensions :: "string list"
  approval_required :: bool
  examples :: "string list"
  idempotency :: string
  side_effect_scope :: string
  capability_version :: string
  provider :: "string option"

record NodeDescriptor =
  node_id :: string
  node_version :: string
  endpoint_url :: string
  supported_protocol_versions :: "string list"
  capabilities :: "CapabilityMetadata list"
  requires :: "string list"
  priority :: int
  auth :: dict

text \<open>
  \<^verbatim>\<open>CapabilityMetadata.from_dict(cap.to_dict())\<close> and
  \<^verbatim>\<open>NodeDescriptor.from_dict(d.to_dict())\<close>: on fields of their declared types the
  round trip strips the string fields and turns a provider that is blank into \<open>None\<close>.
\<close>

definition capability_roundtrip :: "CapabilityMetadata \<Rightarrow> CapabilityMetadata" where
  "capability_roundtrip c =
     c\<lparr>name := strip (name c),
       description := strip (description c),
       input_schema := (if is_dict (input_schema c) then input_schema c else JObj []),
       risk_class := strip (risk_class c),
       idempotency := strip (idempotency c),
       side_effect_scope := strip (side_effect_scope c),
       capability_version := strip (capability_version c),
       provider := (case provider c of
                      None \<Rightarrow> None
                    | Some p \<Rightarrow> if strip p = [] then None else Some (strip p))\<rparr>"

definition descriptor_roundtrip :: "NodeDescriptor \<Rightarrow> NodeDescriptor" where
  "descriptor_roundtrip d =
     d\<lparr>node_id := strip (node_id d),
       node_version := strip (node_version d),
       endpoint_url := strip (endpoint_url d),
       capabilities := map capability_roundtrip (capabilities d)\<rparr>"

section \<open>The library root and node handlers\<close>

text \<open>
  The library root as the router sees it: \<open>None\<close> when the directory does not exist,
  otherwise the entries below it, each with its path relative to the root (a list of
  components). A handler is any function of the outbound message that may change the
  library and either returns a value or raises; a remote node (reached by
  \<^verbatim>\<open>http_post_json\<close>) is such a function of its endpoint.
\<close>

datatype fs_entry = File (st_size: int) (st_mtime_ns: int) (file_content: string) | Dir

type_synonym library = "(string list \<times> fs_entry) list option"

datatype handler_result = Returns json | Raises string

type_synonym node_handler = "json \<Rightarrow> library \<Rightarrow> handler_result \<times> library"

section \<open>The capability registry (\<^verbatim>\<open>registry.py\<close>)\<close>

record NodeRecord =
  descriptor :: NodeDescriptor
  handler :: "node_handler option"
  lease_token :: string
  expires_at_epoch :: real
  registered_at :: string
  last_heartbeat_at :: string

record NodeHealth =
  success_count :: int
  failure_count :: int
  consecutive_failures :: int
  ewma_latency_ms :: "real option"
  circuit_open_until :: real
  updated_at :: string

text \<open>
  The registry in memory: \<^verbatim>\<open>records\<close> and \<^verbatim>\<open>health\<close>, both dictionaries keyed by node id,
  in insertion order. The snapshot file \<^verbatim>\<open>router_registry.json\<close> is rewritten from these
  two after every change and is not modelled separately.
\<close>

record NodeRegistry =
  records :: "(string \<times> NodeRecord) list"
  health :: "(string \<times> NodeHealth) list"
  registration_token :: string
  heartbeat_ttl_sec :: real

definition clone_record :: "NodeRecord \<Rightarrow> NodeRecord" where
  "clone_record rec = rec\<lparr>descriptor := descriptor_roundtrip (descriptor rec)\<rparr>"


text \<open>\<^verbatim>\<open>prune_stale()\<close>: drop every record whose lease ended at or before \<open>now_epoch\<close>.\<close>

definition prune_stale :: "real \<Rightarrow> NodeRegistry \<Rightarrow> NodeRegistry" where
  "prune_stale now_epoch reg =
     reg\<lparr>records := filter (\<lambda>(nid, rec). \<not> expires_at_epoch rec \<le> now_epoch) (records reg)\<rparr>"

definition active_records :: "real \<Rightarrow> NodeRegistry \<Rightarrow> NodeRecord list \<times> NodeRegistry" where
  "active_records now_epoch reg =
     (let reg' = prune_stale now_epoch reg
      in (map (\<lambda>(nid, rec). clone_record rec) (records reg'), reg'))"


definition default_health :: "string \<Rightarrow> NodeHealth" where
  "default_health ts =
     \<lparr>success_count = 0, failure_count = 0, consecutive_failures = 0,
      ewma_latency_ms = None, circuit_open_until = 0, updated_at = ts\<rparr>"

definition update_health :: "string \<Rightarrow> string \<Rightarrow> bool \<Rightarrow> real option \<Rightarrow> NodeRegistry \<Rightarrow> NodeRegistry" where
  "update_health ts nid success latency reg =
     (let state = (case map_of (health reg) nid of Some h \<Rightarrow> h | None \<Rightarrow> default_health ts);
          state' =
            (if success then
               state\<lparr>success_count := success_count state + 1,
                     consecutive_failures := 0,
                     ewma_latency_ms :=
                       (case latency of
                          None \<Rightarrow> ewma_latency_ms state
                        | Some l \<Rightarrow>
                            (case ewma_latency_ms state of
                               None \<Rightarrow> Some l
                             | Some ewma \<Rightarrow> Some (0.7 * ewma + 0.3 * l)))\<rparr>
             else
               state\<lparr>failure_count := failure_count state + 1,
                     consecutive_failures := consecutive_failures state + 1\<rparr>)
      in reg\<lparr>health := AList.update nid (state'\<lparr>updated_at := ts\<rparr>) (health reg)\<rparr>)"

text \<open>The order of selection: \<^verbatim>\<open>RouterCore._node_sort_key\<close>, and the same key as
  \<^verbatim>\<open>capability_metadata\<close> builds it for its candidates.\<close>

type_synonym sort_key = "int \<times> int \<times> int \<times> int \<times> string"

definition node_sort_key :: "NodeRecord \<Rightarrow> sort_key" where
  "node_sort_key rec =
     (case parse_version (node_version (descriptor rec)) of
        (major, minor, patch) \<Rightarrow>
          (- priority (descriptor rec), - major, - minor, - patch, node_id (descriptor rec)))"

definition candidate_key :: "int \<times> (int \<times> int \<times> int) \<times> string \<times> CapabilityMetadata \<Rightarrow> sort_key" where
  "candidate_key item =
     (case item of (prio, (major, minor, patch), nid, cap) \<Rightarrow> (- prio, - major, - minor, - patch, nid))"

text \<open>\<^verbatim>\<open>capability_metadata(intent)\<close>: prune, collect every capability of that name
  with the priority, version and id of its node, sort (Python's sort is stable, as
  \<open>sort_key\<close> is) and return the first.\<close>

definition capability_metadata :: "real \<Rightarrow> string \<Rightarrow> NodeRegistry \<Rightarrow> CapabilityMetadata option \<times> NodeRegistry" where
  "capability_metadata now_epoch intent reg =
     (let reg' = prune_stale now_epoch reg;
          candidates =
            concat (map (\<lambda>(nid, rec).
                      map (\<lambda>cap. (priority (descriptor rec),
                                    parse_version (node_version (descriptor rec)),
                                    node_id (descriptor rec), cap))
                        (filter (\<lambda>cap. name cap = intent) (capabilities (descriptor rec))))
                    (records reg'))
      in (case sort_key candidate_key candidates of
            [] \<Rightarrow> None
          | best # rest \<Rightarrow> Some (snd (snd (snd best))), reg'))"

section \<open>Protocol primitives (\<^verbatim>\<open>protocol.py\<close>)\<close>

definition ensure_extensions :: "dict \<Rightarrow> dict" where
  "ensure_extensions message =
     (if \<not> dict_has message ''extensions'' \<or> dict_get message ''extensions'' = JNull
      then dict_set message ''extensions'' (JObj [])
      else message)"

text \<open>
  \<^verbatim>\<open>ensure_trace(message, parent_message_id, hop)\<close>. The calls on \<^verbatim>\<open>extensions\<close> and on
  \<^verbatim>\<open>trace\<close> need dictionaries and \<^verbatim>\<open>path.append\<close> needs a list: on anything else Python
  raises \<^verbatim>\<open>AttributeError\<close>; \<^verbatim>\<open>int(trace["depth"])\<close> raises as \<open>py_int\<close> does.
  A hop that is \<open>None\<close> or empty is not appended.
\<close>

definition ensure_trace :: "dict \<Rightarrow> json \<Rightarrow> string option \<Rightarrow> py_error + dict" where
  "ensure_trace message parent_message_id hop =
     (let message1 = ensure_extensions message;
          parent = (if truthy parent_message_id then parent_message_id
                    else dict_get message1 ''message_id'')
      in case dict_get message1 ''extensions'' of
           JObj ext \<Rightarrow>
             (let ext1 = dict_setdefault ext ''trace''
                           (JObj [(''parent_message_id'', parent), (''depth'', JInt 0),
                                  (''path'', JList [])])
              in case dict_get ext1 ''trace'' of
                   JObj trace \<Rightarrow>
                     (let trace1 = dict_setdefault trace ''parent_message_id'' parent;
                          trace2 = dict_setdefault trace1 ''depth'' (JInt 0);
                          trace3 = dict_setdefault trace2 ''path'' (JList [])
                      in case py_int (dict_get trace3 ''depth'') of
                           Inl e \<Rightarrow> Inl e
                         | Inr depth \<Rightarrow>
                             (let trace4 = dict_set trace3 ''depth'' (JInt (depth + 1))
                              in case hop of
                                   None \<Rightarrow>
                                     Inr (dict_set message1 ''extensions''
                                            (JObj (dict_set ext1 ''trace'' (JObj trace4))))
                                 | Some h \<Rightarrow>
                                     if h = [] then
                                       Inr (dict_set message1 ''extensions''
                                              (JObj (dict_set ext1 ''trace'' (JObj trace4))))
                                     else
                                       (case dict_get trace4 ''path'' of
                                          JList path \<Rightarrow>
                                            Inr (dict_set message1 ''extensions''
                                                  (JObj (dict_set ext1 ''trace''
                                                    (JObj (dict_set trace4 ''path''
                                                       (JList (path @ [JStr h])))))))
                                        | _ \<Rightarrow> Inl (AttributeError ''append''))))
                 | _ \<Rightarrow> Inl (AttributeError ''setdefault''))
         | _ \<Rightarrow> Inl (AttributeError ''setdefault''))"

text \<open>
  \<^verbatim>\<open>make_response\<close> and \<^verbatim>\<open>make_error\<close>, with the fresh UUID as first argument. Both call
  \<^verbatim>\<open>ensure_trace\<close> on a message they have just built, where it cannot raise; the
  \<open>Inl\<close> branch below is unreachable (lemma \<open>make_error_eq\<close>).
\<close>

definition make_response :: "string \<Rightarrow> string \<Rightarrow> json \<Rightarrow> json \<Rightarrow> dict option \<Rightarrow> json" where
  "make_response uuid intent payload parent_message_id extensions =
     (let response = [(''protocol_version'', JStr PROTOCOL_VERSION), (''message_id'', JStr uuid),
                      (''intent'', JStr intent), (''payload'', payload)];
          response1 = (case extensions of
                         None \<Rightarrow> response
                       | Some ext \<Rightarrow> if ext = [] then response
                                   else dict_set response ''extensions'' (JObj ext))
      in if truthy parent_message_id then
           (case ensure_trace response1 parent_message_id None of
              Inr m \<Rightarrow> JObj m
            | Inl e \<Rightarrow> JObj response1)
         else JObj response1)"

definition make_error :: "string \<Rightarrow> string \<Rightarrow> string \<Rightarrow> json \<Rightarrow> bool \<Rightarrow> dict \<Rightarrow> json" where
  "make_error uuid code msg parent_message_id retryable details =
     (let err = [(''protocol_version'', JStr PROTOCOL_VERSION), (''message_id'', JStr uuid),
                 (''intent'', JStr ''error''),
                 (''payload'', JObj [(''error'',
                     JObj [(''code'', JStr code), (''message'', JStr msg),
                           (''retryable'', JBool retryable), (''details'', JObj details)])]),
                 (''extensions'', JObj [])]
      in if truthy parent_message_id then
           (case ensure_trace err parent_message_id None of
              Inr m \<Rightarrow> JObj m
            | Inl e \<Rightarrow> JObj err)
         else JObj err)"

text \<open>\<^verbatim>\<open>validate_core(message)\<close>: \<open>None\<close> when the message is well formed, otherwise the
  error envelope.\<close>

definition validate_core :: "string \<Rightarrow> json \<Rightarrow> json option" where
  "validate_core uuid message =
     (case message of
        JObj m \<Rightarrow>
          (let msg_id = dict_get m ''message_id'' in
           case filter (\<lambda>field. \<not> dict_has m field)
                  [''protocol_version'', ''message_id'', ''intent'', ''payload''] of
             field # rest \<Rightarrow>
               Some (make_error uuid E_BAD_MESSAGE (''Missing required field: '' @ field)
                       msg_id False [])
           | [] \<Rightarrow>
               if \<not> is_str (dict_get m ''protocol_version'') then
                 Some (make_error uuid E_BAD_MESSAGE ''protocol_version must be string'' msg_id False [])
               else if \<not> is_str (dict_get m ''message_id'') then
                 Some (make_error uuid E_BAD_MESSAGE ''message_id must be string'' msg_id False [])
               else if \<not> is_str (dict_get m ''intent'') then
                 Some (make_error uuid E_BAD_MESSAGE ''intent must be string'' msg_id False [])
               else if \<not> is_dict (dict_get m ''payload'') then
                 Some (make_error uuid E_BAD_MESSAGE ''payload must be object'' msg_id False [])
               else if dict_has m ''extensions'' \<and> dict_get m ''extensions'' \<noteq> JNull
                       \<and> \<not> is_dict (dict_get m ''extensions'') then
                 Some (make_error uuid E_BAD_MESSAGE ''extensions must be object if present''
                         msg_id False [])
               else None)
      | _ \<Rightarrow> Some (make_error uuid E_BAD_MESSAGE ''Message must be an object'' JNull False []))"

definition looks_like_bdp :: "json \<Rightarrow> bool" where
  "looks_like_bdp message = (validate_core [] message = None)"

text \<open>\<^verbatim>\<open>d.get(k, {}) if isinstance(d.get(k), dict) else {}\<close>, the idiom by which the
  sources read a nested dictionary.\<close>

definition sub_dict :: "dict \<Rightarrow> string \<Rightarrow> dict" where
  "sub_dict d k = (case dict_get d k of JObj kvs \<Rightarrow> kvs | _ \<Rightarrow> [])"

text \<open>Readers of a message used below: the string in a field, and the code of an
  error envelope.\<close>

definition str_field :: "dict \<Rightarrow> string \<Rightarrow> string" where
  "str_field m k = (case dict_get m k of JStr s \<Rightarrow> s | _ \<Rightarrow> [])"

definition error_code :: "json \<Rightarrow> json" where
  "error_code response =
     (case response of
        JObj m \<Rightarrow>
          (case dict_get m ''payload'' of
             JObj p \<Rightarrow> (case dict_get p ''error'' of JObj e \<Rightarrow> dict_get e ''code'' | _ \<Rightarrow> JNull)
           | _ \<Rightarrow> JNull)
      | _ \<Rightarrow> JNull)"

definition is_error_with :: "string \<Rightarrow> json \<Rightarrow> bool" where
  "is_error_with code response =
     (case response of
        JObj m \<Rightarrow> dict_get m ''intent'' = JStr ''error'' \<and> error_code response = JStr code
      | _ \<Rightarrow> False)"

definition trace_of :: "json \<Rightarrow> dict" where
  "trace_of message =
     (case message of
        JObj m \<Rightarrow>
          (case dict_get m ''extensions'' of
             JObj ext \<Rightarrow> (case dict_get ext ''trace'' of JObj t \<Rightarrow> t | _ \<Rightarrow> [])
           | _ \<Rightarrow> [])
      | _ \<Rightarrow> [])"

text \<open>The path and the depth a message's trace holds; a message without a trace has the
  empty path and depth 0, the values \<^verbatim>\<open>ensure_trace\<close> starts from.\<close>

definition trace_path :: "json \<Rightarrow> json list" where
  "trace_path message = (case dict_get (trace_of message) ''path'' of JList p \<Rightarrow> p | _ \<Rightarrow> [])"

definition trace_depth :: "json \<Rightarrow> int" where
  "trace_depth message =
     (case py_int (dict_get_default (trace_of message) ''depth'' (JInt 0)) of
        Inr d \<Rightarrow> d
      | Inl err \<Rightarrow> 0)"

definition llm_of :: "json \<Rightarrow> dict" where
  "llm_of message =
     (case message of JObj m \<Rightarrow> sub_dict (sub_dict m ''extensions'') ''llm'' | _ \<Rightarrow> [])"

section \<open>Provider and model selection (\<^verbatim>\<open>config.py\<close>)\<close>

record ProviderDefaults =
  base_url :: string
  default_model :: string

record LLMSelection =
  sel_provider :: string
  sel_model :: string
  provider_source :: string
  model_source :: string

text \<open>The resolver holds the environment (a mapping of strings) and the parsed user
  configuration file (a dictionary of dictionaries and strings); \<open>repr_of\<close> is the
  parameter of \<open>py_str\<close>.\<close>

record ConfigResolver =
  env :: "string \<rightharpoonup> string"
  user_config :: dict
  repr_of :: "json \<Rightarrow> string"

definition env_get :: "ConfigResolver \<Rightarrow> string \<Rightarrow> string \<Rightarrow> string" where
  "env_get cfg var dflt = (case env cfg var of Some v \<Rightarrow> v | None \<Rightarrow> dflt)"

definition default_provider :: "ConfigResolver \<Rightarrow> string \<times> string" where
  "default_provider cfg =
     (let llm_cfg = sub_dict (user_config cfg) ''llm'';
          cfg_provider = dict_get llm_cfg ''default_provider''
      in if is_str cfg_provider \<and> str_field llm_cfg ''default_provider'' \<in> set MODEL_PROVIDERS
         then (str_field llm_cfg ''default_provider'', ''user config'')
         else
           (let env_provider = lower (strip (env_get cfg ''BRAINDRIVE_DEFAULT_PROVIDER'' ''openrouter''))
            in if env_provider \<in> set MODEL_PROVIDERS then (env_provider, ''.env'')
               else (MODEL_PROVIDER_OPENROUTER, ''fallback'')))"

text \<open>\<^verbatim>\<open>x or y\<close> where \<open>x\<close> comes from the configuration and \<open>y\<close> from the environment.\<close>

definition cfg_or_env :: "json \<Rightarrow> string \<Rightarrow> json" where
  "cfg_or_env x y = (if truthy x then x else JStr y)"

definition provider_defaults :: "ConfigResolver \<Rightarrow> string \<Rightarrow> ProviderDefaults" where
  "provider_defaults cfg prov =
     (let llm_cfg = sub_dict (user_config cfg) ''llm'';
          cfg_provider = sub_dict llm_cfg prov
      in if prov = MODEL_PROVIDER_OPENROUTER then
           \<lparr>base_url = py_str (repr_of cfg)
                (cfg_or_env (dict_get cfg_provider ''base_url'')
                   (env_get cfg ''BRAINDRIVE_OPENROUTER_BASE_URL'' ''https://openrouter.ai/api/v1'')),
            default_model = strip (py_str (repr_of cfg)
                (cfg_or_env (dict_get cfg_provider ''default_model'')
                   (env_get cfg ''BRAINDRIVE_OPENROUTER_DEFAULT_MODEL'' '''')))\<rparr>
         else
           \<lparr>base_url = strip (py_str (repr_of cfg)
                (cfg_or_env (dict_get cfg_provider ''base_url'')
                   (env_get cfg ''BRAINDRIVE_OLLAMA_BASE_URL'' ''''))),
            default_model = strip (py_str (repr_of cfg)
                (cfg_or_env (dict_get cfg_provider ''default_model'')
                   (env_get cfg ''BRAINDRIVE_OLLAMA_DEFAULT_MODEL'' '''')))\<rparr>)"

definition select_llm :: "ConfigResolver \<Rightarrow> dict \<Rightarrow> LLMSelection" where
  "select_llm cfg ext =
     (let (prov, prov_source) =
            (if is_str (dict_get ext ''provider'') \<and> str_field ext ''provider'' \<in> set MODEL_PROVIDERS
             then (str_field ext ''provider'', ''request override'')
             else default_provider cfg);
          provider_cfg = provider_defaults cfg prov;
          (model, mod_source) =
            (if is_str (dict_get ext ''model'') \<and> strip (str_field ext ''model'') \<noteq> []
             then (strip (str_field ext ''model''), ''request override'')
             else
               (let llm_cfg = sub_dict (user_config cfg) ''llm'';
                    provider_cfg_dict = sub_dict llm_cfg prov
                in if is_str (dict_get provider_cfg_dict ''default_model'')
                      \<and> strip (str_field provider_cfg_dict ''default_model'') \<noteq> []
                   then (strip (str_field provider_cfg_dict ''default_model''), ''user config'')
                   else (default_model provider_cfg, ''.env'')))
      in \<lparr>sel_provider = prov, sel_model = model,
          provider_source = prov_source, model_source = mod_source\<rparr>)"

definition validate_provider_requirements :: "ConfigResolver \<Rightarrow> LLMSelection \<Rightarrow> string option" where
  "validate_provider_requirements cfg selection =
     (if sel_provider selection = MODEL_PROVIDER_OPENROUTER then
        (if strip (env_get cfg ''BRAINDRIVE_OPENROUTER_API_KEY'' '''') = [] then
           Some ''BRAINDRIVE_OPENROUTER_API_KEY is required for provider openrouter''
         else if sel_model selection = [] then
           Some ''Default model is required for provider openrouter''
         else None)
      else
        (if base_url (provider_defaults cfg MODEL_PROVIDER_OLLAMA) = [] then
           Some ''BRAINDRIVE_OLLAMA_BASE_URL is required for provider ollama''
         else if sel_model selection = [] then
           Some ''Default model is required for provider ollama''
         else None))"

section \<open>The router core (\<^verbatim>\<open>router.py\<close>)\<close>

text \<open>
  The state a call of \<^verbatim>\<open>route\<close> can change: the registry, the persisted logs, and the
  library below the library root (through the handlers it invokes). \<open>calls\<close> is a
  history variable: every invocation of a handler or remote endpoint is recorded there
  with the node id and the outbound message, so that "no handler is invoked" can be stated.
\<close>

record RouterCore =
  registry :: NodeRegistry
  persistence :: disk
  library_fs :: library
  calls :: "(string \<times> json) list"

text \<open>
  What a call of \<^verbatim>\<open>route\<close> reads from outside: the configuration, whether a library root
  was configured, the clock at the two prunes (in \<^verbatim>\<open>active_records\<close> and in
  \<^verbatim>\<open>capability_metadata\<close>), the time stamp of its events, the latency it measures, the
  UUID of the error envelope it may build, and the remote nodes behind
  \<^verbatim>\<open>http_post_json\<close>.
\<close>

record route_env =
  config :: ConfigResolver
  library_root :: bool
  now_eligible :: real
  now_metadata :: real
  now_iso :: string
  new_uuid :: string
  latency_ms :: real
  http_post_json :: "string \<Rightarrow> node_handler"

definition eligible_nodes :: "NodeRecord list \<Rightarrow> string \<Rightarrow> string \<Rightarrow> NodeRecord list" where
  "eligible_nodes active intent protocol_version =
     filter (\<lambda>rec. protocol_version \<in> set (supported_protocol_versions (descriptor rec))
                  \<and> list_ex (\<lambda>cap. name cap = intent) (capabilities (descriptor rec))) active"

definition metadata_for :: "NodeRecord \<Rightarrow> string \<Rightarrow> CapabilityMetadata option" where
  "metadata_for rec intent = find (\<lambda>cap. name cap = intent) (capabilities (descriptor rec))"

definition required_extensions_for :: "NodeRecord \<Rightarrow> string \<Rightarrow> string list" where
  "required_extensions_for rec intent =
     (case metadata_for rec intent of Some cap \<Rightarrow> required_extensions cap | None \<Rightarrow> [])"

text \<open>The required extensions of a candidate that the message lacks (line 183).\<close>

definition missing_extensions :: "NodeRecord \<Rightarrow> string \<Rightarrow> dict \<Rightarrow> string list" where
  "missing_extensions rec intent extensions =
     filter (\<lambda>req. \<not> dict_has extensions req) (required_extensions_for rec intent)"

text \<open>\<^verbatim>\<open>_fingerprint_library\<close>: \<open>None\<close> without a configured, existing root; otherwise the
  regular files below it, in the order of their paths, each with its relative path
  (components joined by a slash, backslashes replaced), size and modification time.\<close>

fun join_path :: "string list \<Rightarrow> string" where
  "join_path [] = []"
| "join_path [p] = p"
| "join_path (p # q # ps) = p @ ''/'' @ join_path (q # ps)"

definition rel_path :: "string list \<Rightarrow> string" where
  "rel_path parts = map (\<lambda>c. if c = CHR 0x5C then CHR ''/'' else c) (join_path parts)"

fun is_file :: "fs_entry \<Rightarrow> bool" where
  "is_file (File sz mt body) = True"
| "is_file Dir = False"

type_synonym fingerprint = "(string \<times> int \<times> int) list option"

definition fingerprint_library :: "bool \<Rightarrow> library \<Rightarrow> fingerprint" where
  "fingerprint_library root_configured lib =
     (if \<not> root_configured then None
      else (case lib of
              None \<Rightarrow> None
            | Some entries \<Rightarrow>
                Some (map (\<lambda>(path, e). (rel_path path, st_size e, st_mtime_ns e))
                        (filter (\<lambda>(path, e). is_file e) (sort_key fst entries)))))"

definition status_not_approved :: "(json \<Rightarrow> string) \<Rightarrow> dict \<Rightarrow> bool" where
  "status_not_approved repr message =
     (let extensions = sub_dict message ''extensions'';
          confirmation = sub_dict extensions ''confirmation''
      in lower (py_str repr (dict_get_default confirmation ''status'' (JStr ''''))) \<noteq> ''approved'')"

definition check_confirmation :: "(json \<Rightarrow> string) \<Rightarrow> string \<Rightarrow> dict \<Rightarrow> bool \<Rightarrow> json option" where
  "check_confirmation repr uuid message approval_req =
     (if \<not> approval_req then None
      else if status_not_approved repr message then
        Some (make_error uuid E_CONFIRMATION_REQUIRED ''Approval required before applying changes.''
                (dict_get message ''message_id'') False [])
      else None)"

definition filter_for_provider ::
  "ConfigResolver \<Rightarrow> string \<Rightarrow> NodeRecord list \<Rightarrow> string \<Rightarrow> dict
     \<Rightarrow> NodeRecord list \<times> json option \<times> dict option" where
  "filter_for_provider cfg uuid nodes intent message =
     (if \<not> prefix ''model.'' intent then (nodes, None, None)
      else
        (let extensions = sub_dict message ''extensions'';
             llm_ext = sub_dict extensions ''llm'';
             selection = select_llm cfg llm_ext;
             msg_id = dict_get message ''message_id''
         in if sel_provider selection \<notin> set MODEL_PROVIDERS then
              ([], Some (make_error uuid E_BAD_MESSAGE ''Invalid model provider'' msg_id False []), None)
            else if sel_model selection = [] then
              ([], Some (make_error uuid E_BAD_MESSAGE ''Model is required for model intent''
                           msg_id False []), None)
            else
              (case validate_provider_requirements cfg selection of
                 Some requirement_error \<Rightarrow>
                   ([], Some (make_error uuid E_NODE_UNAVAILABLE requirement_error msg_id False []), None)
               | None \<Rightarrow>
                   (let filtered =
                          filter (\<lambda>rec. case metadata_for rec intent of
                                          None \<Rightarrow> False
                                        | Some cap \<Rightarrow> provider cap = Some (sel_provider selection))
                            nodes
                    in if filtered = [] then
                         ([], Some (make_error uuid E_NODE_UNAVAILABLE
                                      ''Model provider unavailable. Check provider status and config.''
                                      msg_id False
                                      [(''provider'', JStr (sel_provider selection)),
                                       (''intent'', JStr intent)]), None)
                       else
                         (filtered, None,
                          Some [(''provider'', JStr (sel_provider selection)),
                                (''model'', JStr (sel_model selection)),
                                (''provider_source'', JStr (provider_source selection)),
                                (''model_source'', JStr (model_source selection))])))))"

text \<open>Provider disclosure on the outbound message (lines 216 to 222). Item assignment on
  an \<^verbatim>\<open>llm\<close> extension that is not a dictionary raises \<^verbatim>\<open>TypeError\<close>.\<close>

definition stamp_disclosure :: "dict option \<Rightarrow> dict \<Rightarrow> py_error + dict" where
  "stamp_disclosure provider_disclosure outbound =
     (case provider_disclosure of
        None \<Rightarrow> Inr outbound
      | Some disclosure \<Rightarrow>
          if disclosure = [] then Inr outbound
          else
            (let outbound1 = dict_setdefault outbound ''extensions'' (JObj []) in
             case dict_get outbound1 ''extensions'' of
               JObj out_ext \<Rightarrow>
                 (let out_ext1 = dict_setdefault out_ext ''llm'' (JObj []) in
                  case dict_get out_ext1 ''llm'' of
                    JObj llm_ext \<Rightarrow>
                      (let llm1 = dict_set llm_ext ''provider'' (dict_get disclosure ''provider'');
                           llm2 = dict_set llm1 ''model'' (dict_get disclosure ''model'');
                           llm3 = dict_set llm2 ''provider_source'' (dict_get disclosure ''provider_source'');
                           llm4 = dict_set llm3 ''model_source'' (dict_get disclosure ''model_source'')
                       in Inr (dict_set outbound1 ''extensions''
                                 (JObj (dict_set out_ext1 ''llm'' (JObj llm4)))))
                  | _ \<Rightarrow> Inl (TypeError ''object does not support item assignment''))
             | _ \<Rightarrow> Inl (AttributeError ''setdefault'')))"

text \<open>The name Python prints for the type of a value, as it appears in the text of an
  \<^verbatim>\<open>AttributeError\<close>.\<close>

fun type_name :: "json \<Rightarrow> string" where
  "type_name JNull = ''NoneType''"
| "type_name (JBool b) = ''bool''"
| "type_name (JInt n) = ''int''"
| "type_name (JFloat r) = ''float''"
| "type_name (JStr s) = ''str''"
| "type_name (JList xs) = ''list''"
| "type_name (JObj kvs) = ''dict''"

text \<open>
  One pass of the loop body after the dispatch event (lines 233 to 293): either the
  response to return, or the entry appended to \<^verbatim>\<open>attempted\<close> together with the entry
  appended to \<^verbatim>\<open>retryable_errors\<close>, if any.
\<close>

datatype attempt_outcome = Return json | Continue json "json option"

definition mark_failure :: "route_env \<Rightarrow> NodeRecord \<Rightarrow> RouterCore \<Rightarrow> RouterCore" where
  "mark_failure e rec st =
     st\<lparr>registry := update_health (now_iso e) (node_id (descriptor rec)) False None (registry st)\<rparr>"

definition mark_success :: "route_env \<Rightarrow> NodeRecord \<Rightarrow> RouterCore \<Rightarrow> RouterCore" where
  "mark_success e rec st =
     st\<lparr>registry := update_health (now_iso e) (node_id (descriptor rec)) True
                        (Some (latency_ms e)) (registry st)\<rparr>"

definition attempted_entry :: "NodeRecord \<Rightarrow> string \<Rightarrow> dict \<Rightarrow> json" where
  "attempted_entry rec result extra =
     JObj ([(''node_id'', JStr (node_id (descriptor rec))), (''result'', JStr result)] @ extra)"

definition after_response :: "route_env \<Rightarrow> NodeRecord \<Rightarrow> fingerprint \<Rightarrow> json \<Rightarrow> RouterCore
     \<Rightarrow> attempt_outcome \<times> RouterCore" where
  "after_response e rec before_fp response st =
     (if \<not> looks_like_bdp response then
        (Continue (attempted_entry rec ''invalid_response'' []) None, mark_failure e rec st)
      else if before_fp \<noteq> None
              \<and> fingerprint_library (library_root e) (library_fs st) \<noteq> None
              \<and> fingerprint_library (library_root e) (library_fs st) \<noteq> before_fp then
        (Continue (attempted_entry rec ''undeclared_side_effect'' []) None, mark_failure e rec st)
      else
        (case response of
           JObj resp \<Rightarrow>
             if dict_get resp ''intent'' = JStr ''error'' then
               (case dict_get_default (sub_dict resp ''payload'') ''error'' (JObj []) of
                  JObj err \<Rightarrow>
                    if truthy (dict_get_default err ''retryable'' (JBool False)) then
                      (Continue
                         (attempted_entry rec ''retryable_error'' [(''code'', dict_get err ''code'')])
                         (Some (JObj [(''code'', dict_get err ''code''),
                                      (''message'', dict_get err ''message''),
                                      (''details'', dict_get_default err ''details'' (JObj []))])),
                       mark_failure e rec st)
                    else (Return response, mark_success e rec st)
                | other \<Rightarrow>
                    (Continue
                       (attempted_entry rec ''exception''
                          [(''error'', JStr ([CHR 0x27] @ type_name other @ [CHR 0x27]
                                              @ '' object has no attribute '' @ [CHR 0x27] @ ''get''
                                              @ [CHR 0x27]))])
                       None,
                     mark_failure e rec st))
             else (Return response, mark_success e rec st)
         | _ \<Rightarrow> (Continue (attempted_entry rec ''invalid_response'' []) None, mark_failure e rec st)))"

text \<open>Lines 235 to 238: the fingerprint taken before the call, for a capability declared
  read-only without side effects; \<open>None\<close> for any other capability.\<close>

definition before_fingerprint :: "route_env \<Rightarrow> string \<Rightarrow> NodeRecord \<Rightarrow> RouterCore \<Rightarrow> fingerprint" where
  "before_fingerprint e intent rec st =
     (case metadata_for rec intent of
        None \<Rightarrow> None
      | Some cap \<Rightarrow>
          if risk_class cap = ''read'' \<and> side_effect_scope cap = ''none''
          then fingerprint_library (library_root e) (library_fs st)
          else None)"

text \<open>Lines 240 to 247: the in-process handler, or the remote endpoint when there is no
  handler and the URL starts with \<^verbatim>\<open>http\<close>; otherwise nothing to call.\<close>

definition node_target :: "route_env \<Rightarrow> NodeRecord \<Rightarrow> node_handler option" where
  "node_target e rec =
     (case handler rec of
        Some h \<Rightarrow> Some h
      | None \<Rightarrow>
          if prefix ''http'' (endpoint_url (descriptor rec))
          then Some (http_post_json e (endpoint_url (descriptor rec)))
          else None)"

definition invoke_node :: "route_env \<Rightarrow> string \<Rightarrow> json \<Rightarrow> NodeRecord \<Rightarrow> RouterCore
     \<Rightarrow> attempt_outcome \<times> RouterCore" where
  "invoke_node e intent outbound rec st =
     (let before_fp = before_fingerprint e intent rec st
      in case node_target e rec of
           None \<Rightarrow> (Continue (attempted_entry rec ''handler_missing'' []) None, st)
         | Some h \<Rightarrow>
             (let (result, lib') = h outbound (library_fs st);
                  st1 = st\<lparr>library_fs := lib',
                           calls := calls st @ [(node_id (descriptor rec), outbound)]\<rparr>
              in case result of
                   Raises msg \<Rightarrow>
                     (Continue (attempted_entry rec ''exception'' [(''error'', JStr msg)]) None,
                      mark_failure e rec st1)
                 | Returns response \<Rightarrow> after_response e rec before_fp response st1))"

text \<open>The error built when the loop has run out of candidates (lines 295 to 327).\<close>

definition exhausted_error :: "route_env \<Rightarrow> json \<Rightarrow> json list \<Rightarrow> json list \<Rightarrow> json" where
  "exhausted_error e msg_id attempted retryable_errors =
     (case retryable_errors of
        first # rest \<Rightarrow>
          (let f = (case first of JObj kvs \<Rightarrow> kvs | _ \<Rightarrow> []) in
           make_error (new_uuid e)
             (py_str (repr_of (config e)) (dict_get_default f ''code'' (JStr E_NODE_UNAVAILABLE)))
             (py_str (repr_of (config e))
                (dict_get_default f ''message'' (JStr ''Request failed. You can retry.'')))
             msg_id True
             [(''attempted'', JList attempted),
              (''upstream'', dict_get_default f ''details'' (JObj []))])
      | [] \<Rightarrow>
          if attempted \<noteq> [] then
            (if list_ex (\<lambda>item. case item of
                                   JObj kvs \<Rightarrow> dict_get kvs ''result'' = JStr ''undeclared_side_effect''
                                 | _ \<Rightarrow> False) attempted
             then make_error (new_uuid e) E_NODE_ERROR
                    ''Execution failed due to undeclared side effects in read-only capability.''
                    msg_id False [(''attempted'', JList attempted)]
             else make_error (new_uuid e) E_NODE_UNAVAILABLE
                    ''No eligible nodes could successfully process the request''
                    msg_id True [(''attempted'', JList attempted)])
          else make_error (new_uuid e) E_INTERNAL ''Unexpected internal error. Please retry.''
                 msg_id True [])"

text \<open>The loop over the sorted candidates (lines 213 to 293). \<^verbatim>\<open>ensure_trace\<close> and the
  provider disclosure run outside the \<^verbatim>\<open>try\<close> block: if they raise, \<^verbatim>\<open>route\<close> raises.\<close>

fun route_loop :: "route_env \<Rightarrow> dict \<Rightarrow> string \<Rightarrow> dict option \<Rightarrow> NodeRecord list
     \<Rightarrow> json list \<Rightarrow> json list \<Rightarrow> RouterCore \<Rightarrow> (py_error + json) \<times> RouterCore" where
  "route_loop e message intent provider_disclosure [] attempted retryable_errors st =
     (Inr (exhausted_error e (dict_get message ''message_id'') attempted retryable_errors), st)"
| "route_loop e message intent provider_disclosure (rec # recs) attempted retryable_errors st =
     (case ensure_trace message (dict_get message ''message_id'') (Some ''router.core'') of
        Inl err \<Rightarrow> (Inl err, st)
      | Inr outbound0 \<Rightarrow>
          (case stamp_disclosure provider_disclosure outbound0 of
             Inl err \<Rightarrow> (Inl err, st)
           | Inr outbound \<Rightarrow>
               (let st1 = st\<lparr>persistence :=
                              emit_event (now_iso e) ''router'' ''router.route_dispatched''
                                (JObj [(''selected_node_id'', JStr (node_id (descriptor rec))),
                                       (''intent'', JStr intent)])
                                (persistence st)\<rparr>
                in case invoke_node e intent (JObj outbound) rec st1 of
                     (Return response, st2) \<Rightarrow> (Inr response, st2)
                   | (Continue entry retryable, st2) \<Rightarrow>
                       route_loop e message intent provider_disclosure recs
                         (attempted @ [entry])
                         (retryable_errors @ (case retryable of None \<Rightarrow> [] | Some r \<Rightarrow> [r]))
                         st2)))"

text \<open>\<^verbatim>\<open>RouterCore.route(message)\<close>.\<close>

definition route :: "route_env \<Rightarrow> json \<Rightarrow> RouterCore \<Rightarrow> (py_error + json) \<times> RouterCore" where
  "route e message st =
     (case validate_core (new_uuid e) message of
        Some validation_error \<Rightarrow> (Inr validation_error, st)
      | None \<Rightarrow>
          (let m = (case message of JObj kvs \<Rightarrow> kvs | _ \<Rightarrow> []);
               msg_id = dict_get m ''message_id'';
               protocol_version = str_field m ''protocol_version'';
               intent = str_field m ''intent'';
               extensions = sub_dict m ''extensions''
           in if protocol_version \<noteq> PROTOCOL_VERSION then
                (Inr (make_error (new_uuid e) E_UNSUPPORTED_PROTOCOL
                        (''Protocol version unsupported in this build: '' @ protocol_version)
                        msg_id False []), st)
              else
                (let (active, reg1) = active_records (now_eligible e) (registry st);
                     st1 = st\<lparr>registry := reg1\<rparr>;
                     candidates = eligible_nodes active intent protocol_version
                 in if candidates = [] then
                      (Inr (make_error (new_uuid e) E_NO_ROUTE
                              (''No matching capability for intent: '' @ intent) msg_id False []), st1)
                    else
                      (let eligible = filter (\<lambda>rec. missing_extensions rec intent extensions = [])
                                        candidates;
                           missing_union = concat (map (\<lambda>rec. missing_extensions rec intent extensions)
                                                     candidates)
                       in if eligible = [] then
                            (Inr (make_error (new_uuid e) E_REQUIRED_EXTENSION_MISSING
                                    ''Required protocol extension is missing for this request.''
                                    msg_id False
                                    [(''missing'', JList (map JStr (sort (remdups missing_union))))]),
                             st1)
                          else
                            (let (protected_meta, reg2) =
                                   capability_metadata (now_metadata e) intent (registry st1);
                                 st2 = st1\<lparr>registry := reg2\<rparr>
                             in case check_confirmation (repr_of (config e)) (new_uuid e) m
                                       (case protected_meta of
                                          None \<Rightarrow> False
                                        | Some meta \<Rightarrow> approval_required meta) of
                                  Some approval_error \<Rightarrow> (Inr approval_error, st2)
                                | None \<Rightarrow>
                                    (case filter_for_provider (config e) (new_uuid e) eligible intent m of
                                       (filtered, Some provider_error, disclosure) \<Rightarrow>
                                         (Inr provider_error, st2)
                                     | (filtered, None, disclosure) \<Rightarrow>
                                         route_loop e m intent disclosure
                                           (sort_key node_sort_key filtered) [] [] st2))))))"

section \<open>The approval gate (\<^verbatim>\<open>nodes/approval_gate.py\<close>)\<close>

text \<open>
  The node keeps \<^verbatim>\<open>self.state\<close>, a dictionary whose entry \<^verbatim>\<open>requests\<close> maps request ids
  to approval records (dictionaries), and saves it under the state name \<^verbatim>\<open>approvals\<close>
  after every change.
\<close>

record ApprovalGateNode =
  approvals :: dict
  gate_disk :: disk

text \<open>What one call of \<^verbatim>\<open>handle\<close> reads from outside: the clock, the UUID of the
  response envelope, the UUID for a generated request id, and \<open>repr\<close> for \<open>py_str\<close>.\<close>

record gate_env =
  gate_now_iso :: string
  gate_uuid :: string
  gate_request_uuid :: string
  gate_repr :: "json \<Rightarrow> string"

definition get_request :: "dict \<Rightarrow> string \<Rightarrow> dict option" where
  "get_request state request_id =
     (case dict_get_default state ''requests'' (JObj []) of
        JObj requests \<Rightarrow> (case dict_get requests request_id of JObj item \<Rightarrow> Some item | _ \<Rightarrow> None)
      | _ \<Rightarrow> None)"

definition gate_save :: "ApprovalGateNode \<Rightarrow> ApprovalGateNode" where
  "gate_save node = node\<lparr>gate_disk := save_state ''approvals'' (JObj (approvals node)) (gate_disk node)\<rparr>"

text \<open>\<^verbatim>\<open>self.state.setdefault("requests", {})[request_id] = record\<close>; the constructor has
  made \<^verbatim>\<open>requests\<close> a dictionary.\<close>

definition store_request :: "dict \<Rightarrow> string \<Rightarrow> dict \<Rightarrow> dict" where
  "store_request state request_id rcd =
     (let state1 = dict_setdefault state ''requests'' (JObj [])
      in dict_set state1 ''requests'' (JObj (dict_set (sub_dict state1 ''requests'') request_id (JObj rcd))))"

definition handle_request :: "gate_env \<Rightarrow> dict \<Rightarrow> ApprovalGateNode \<Rightarrow> json \<times> ApprovalGateNode" where
  "handle_request g message node =
     (let msg_id = dict_get message ''message_id'' in
      case dict_get_default message ''payload'' (JObj []) of
        JObj payload \<Rightarrow>
          (let guarded = strip (py_str (gate_repr g)
                                  (dict_get_default payload ''intent_being_guarded'' (JStr '''')));
               changes = dict_get_default payload ''changes'' (JList [])
           in if guarded = [] then
                (make_error (gate_uuid g) ''E_BAD_MESSAGE'' ''intent_being_guarded is required''
                   msg_id False [], node)
              else
                (case changes of
                   JList (c # cs) \<Rightarrow>
                     (let given = strip (py_str (gate_repr g)
                                           (dict_get_default payload ''request_id'' (JStr '''')));
                          request_id = (if given \<noteq> [] then given
                                        else ''appr-'' @ gate_request_uuid g);
                          rcd = [(''request_id'', JStr request_id),
                                 (''intent_being_guarded'', JStr guarded),
                                 (''changes'', changes),
                                 (''status'', JStr ''pending''),
                                 (''requested_at'', JStr (gate_now_iso g)),
                                 (''resolved_at'', JNull),
                                 (''decision'', JNull),
                                 (''decision_note'', JStr '''')];
                          node1 = gate_save (node\<lparr>approvals := store_request (approvals node) request_id rcd\<rparr>)
                      in (make_response (gate_uuid g) ''approval.requested'' (JObj rcd) msg_id None, node1))
                 | _ \<Rightarrow>
                     (make_error (gate_uuid g) ''E_BAD_MESSAGE'' ''changes must be non-empty list''
                        msg_id False [], node)))
      | _ \<Rightarrow> (make_error (gate_uuid g) ''E_BAD_MESSAGE'' ''payload must be object'' msg_id False [], node))"

definition handle_resolve :: "gate_env \<Rightarrow> dict \<Rightarrow> ApprovalGateNode \<Rightarrow> json \<times> ApprovalGateNode" where
  "handle_resolve g message node =
     (let msg_id = dict_get message ''message_id'' in
      case dict_get_default message ''payload'' (JObj []) of
        JObj payload \<Rightarrow>
          (let request_id = strip (py_str (gate_repr g)
                                     (dict_get_default payload ''request_id'' (JStr '''')));
               decision = lower (strip (py_str (gate_repr g)
                                     (dict_get_default payload ''decision'' (JStr ''''))))
           in if request_id = [] then
                (make_error (gate_uuid g) ''E_BAD_MESSAGE'' ''request_id is required'' msg_id False [], node)
              else if decision \<notin> {''approved'', ''denied''} then
                (make_error (gate_uuid g) ''E_BAD_MESSAGE'' ''decision must be approved|denied''
                   msg_id False [], node)
              else
                (case get_request (approvals node) request_id of
                   None \<Rightarrow>
                     (make_error (gate_uuid g) ''E_NO_ROUTE''
                        (''approval request not found: '' @ request_id) msg_id False [], node)
                 | Some rcd \<Rightarrow>
                     if rcd = [] then
                       (make_error (gate_uuid g) ''E_NO_ROUTE''
                          (''approval request not found: '' @ request_id) msg_id False [], node)
                     else
                       (let rcd1 = dict_set rcd ''status'' (JStr decision);
                            rcd2 = dict_set rcd1 ''decision'' (JStr decision);
                            rcd3 = dict_set rcd2 ''resolved_at'' (JStr (gate_now_iso g));
                            rcd4 = dict_set rcd3 ''decision_note''
                                     (JStr (py_str (gate_repr g)
                                        (dict_get_default payload ''decision_note'' (JStr ''''))));
                            rcd5 = dict_set rcd4 ''decided_by''
                                     (JStr (py_str (gate_repr g)
                                        (dict_get_default payload ''decided_by'' (JStr ''owner''))));
                            node1 = gate_save
                                      (node\<lparr>approvals := store_request (approvals node) request_id rcd5\<rparr>)
                        in (make_response (gate_uuid g) ''approval.resolved''
                              (JObj (dict_set rcd5 ''confirmation''
                                       (JObj [(''required'', JBool True),
                                              (''status'', JStr decision),
                                              (''request_id'', JStr request_id)])))
                              msg_id None,
                            node1))))
      | _ \<Rightarrow> (make_error (gate_uuid g) ''E_BAD_MESSAGE'' ''payload must be object'' msg_id False [], node))"

definition gate_handle :: "gate_env \<Rightarrow> dict \<Rightarrow> ApprovalGateNode \<Rightarrow> json \<times> ApprovalGateNode" where
  "gate_handle g message node =
     (if dict_get message ''intent'' = JStr ''approval.request'' then handle_request g message node
      else if dict_get message ''intent'' = JStr ''approval.resolve'' then handle_resolve g message node
      else (make_error (gate_uuid g) ''E_NO_ROUTE'' ''Unsupported intent''
              (dict_get message ''message_id'') False [], node))"

section \<open>The asynchronous pipeline of Proof-of-Concept-3 (\<^verbatim>\<open>shared/bdp.py\<close>, \<^verbatim>\<open>worker.py\<close>, \<^verbatim>\<open>router_service.py\<close>)\<close>

text \<open>
  \<^verbatim>\<open>shared/bdp.py\<close> has the same \<^verbatim>\<open>ensure_trace\<close> and \<^verbatim>\<open>make_error\<close> as the runtime and the
  same protocol version, so \<open>ensure_trace\<close> and \<open>make_error\<close> above serve for both. Its
  \<^verbatim>\<open>looks_like_bdp\<close> is written differently and is embedded here as \<open>looks_like_bdp3\<close>.
\<close>

definition looks_like_bdp3 :: "json \<Rightarrow> bool" where
  "looks_like_bdp3 message =
     (case message of
        JObj m \<Rightarrow>
          is_str (dict_get m ''protocol_version'')
          \<and> is_str (dict_get m ''message_id'')
          \<and> is_str (dict_get m ''intent'')
          \<and> is_dict (dict_get m ''payload'')
          \<and> (\<not> dict_has m ''extensions'' \<or> dict_get m ''extensions'' = JNull
               \<or> is_dict (dict_get m ''extensions''))
      | _ \<Rightarrow> False)"

definition EX_CAPABILITY :: string where "EX_CAPABILITY = ''bdp.capability''"
definition EX_LOG :: string where "EX_LOG = ''bdp.log''"
definition EX_DLQ :: string where "EX_DLQ = ''bdp.dlq''"

text \<open>
  The key-value store and the broker. A Redis string is either a plain text or the
  serialisation of a JSON value (\<^verbatim>\<open>json.dumps\<close>), kept as the value itself; the list
  \<^verbatim>\<open>bdp:events:<id>\<close> holds the event entries; a status hash maps field names to strings.
  \<open>published\<close> is everything handed to \<^verbatim>\<open>basic_publish\<close> (exchange, routing key, body) and
  \<open>posted\<close> every result posted to the router, in order. Calls to Redis and to the broker
  are taken to succeed; the HTTP callback to the router may fail (\<open>router_reachable\<close>).
\<close>

datatype redis_value = Text string | JsonText json

record pipeline =
  redis_kv :: "string \<rightharpoonup> redis_value"
  redis_events :: "string \<Rightarrow> json list"
  redis_status :: "string \<Rightarrow> (string \<times> redis_value) list"
  published :: "(string \<times> string \<times> json) list"
  posted :: "json list"

record worker_env =
  NODE_ID :: string
  MAX_ATTEMPTS :: int
  OLLAMA_BASE_URL :: string
  DEFAULT_CHAT_MODEL :: string
  worker_now_iso :: string
  worker_uuid :: string
  worker_repr :: "json \<Rightarrow> string"
  router_reachable :: bool
  ollama_chat :: "json \<Rightarrow> py_error + json"

definition redis_append_event :: "string \<Rightarrow> string \<Rightarrow> string \<Rightarrow> dict \<Rightarrow> pipeline \<Rightarrow> pipeline" where
  "redis_append_event ts message_id event details p =
     p\<lparr>redis_events := (redis_events p)
          (''bdp:events:'' @ message_id :=
             redis_events p (''bdp:events:'' @ message_id)
             @ [JObj [(''ts'', JStr ts), (''event'', JStr event),
                      (''message_id'', JStr message_id), (''details'', JObj details)]])\<rparr>"

definition publish_json :: "string \<Rightarrow> string \<Rightarrow> json \<Rightarrow> pipeline \<Rightarrow> pipeline" where
  "publish_json exchange routing_key body p = p\<lparr>published := published p @ [(exchange, routing_key, body)]\<rparr>"

definition publish_log :: "string \<Rightarrow> string \<Rightarrow> dict \<Rightarrow> pipeline \<Rightarrow> pipeline" where
  "publish_log message_id event details p =
     publish_json EX_LOG ''''
       (JObj [(''event'', JStr event), (''message_id'', JStr message_id), (''details'', JObj details)]) p"

text \<open>An event is appended to the replay list and published to the log exchange, always
  in that order and with the same details.\<close>

definition log_event :: "worker_env \<Rightarrow> string \<Rightarrow> string \<Rightarrow> dict \<Rightarrow> pipeline \<Rightarrow> pipeline" where
  "log_event w message_id event details p =
     publish_log message_id event details
       (redis_append_event (worker_now_iso w) message_id event details p)"

definition redis_set :: "string \<Rightarrow> redis_value \<Rightarrow> pipeline \<Rightarrow> pipeline" where
  "redis_set key v p = p\<lparr>redis_kv := (redis_kv p)(key \<mapsto> v)\<rparr>"

text \<open>\<^verbatim>\<open>send_result\<close>: post the result to the router; \<^verbatim>\<open>post_json\<close> raises when the router
  cannot be reached.\<close>

definition send_result :: "worker_env \<Rightarrow> string \<Rightarrow> json \<Rightarrow> int \<Rightarrow> bool \<Rightarrow> bool \<Rightarrow> pipeline
     \<Rightarrow> py_error option \<times> pipeline" where
  "send_result w message_id response attempt duplicate dead_lettered p =
     (if router_reachable w then
        (None, p\<lparr>posted := posted p @
                   [JObj [(''message_id'', JStr message_id), (''node_id'', JStr (NODE_ID w)),
                          (''response'', response), (''attempt'', JInt attempt),
                          (''duplicate'', JBool duplicate), (''dead_lettered'', JBool dead_lettered)]]\<rparr>)
      else (Some (RuntimeError ''HTTP POST failed''), p))"

text \<open>\<^verbatim>\<open>x.get(k, default)\<close> on a value that need not be a dictionary.\<close>

definition attr_error :: "json \<Rightarrow> string \<Rightarrow> py_error" where
  "attr_error v attr =
     AttributeError ([CHR 0x27] @ type_name v @ [CHR 0x27] @ '' object has no attribute ''
                     @ [CHR 0x27] @ attr @ [CHR 0x27])"

definition py_get :: "json \<Rightarrow> string \<Rightarrow> json \<Rightarrow> py_error + json" where
  "py_get v k dflt = (case v of JObj d \<Rightarrow> Inr (dict_get_default d k dflt) | _ \<Rightarrow> Inl (attr_error v ''get''))"

text \<open>\<^verbatim>\<open>"identity" in x\<close>: key membership for a dictionary, substring for a string, element
  for a list, \<^verbatim>\<open>TypeError\<close> otherwise.\<close>

definition has_identity :: "json \<Rightarrow> py_error + bool" where
  "has_identity x =
     (case x of
        JObj d \<Rightarrow> Inr (dict_has d ''identity'')
      | JStr s \<Rightarrow> Inr (sublist ''identity'' s)
      | JList xs \<Rightarrow> Inr (JStr ''identity'' \<in> set xs)
      | _ \<Rightarrow> Inl (TypeError ''argument is not iterable''))"

text \<open>\<^verbatim>\<open>message.get("extensions", {}) or {}\<close>.\<close>

definition extensions_or_empty :: "dict \<Rightarrow> json" where
  "extensions_or_empty message =
     (let x = dict_get_default message ''extensions'' (JObj []) in if truthy x then x else JObj [])"

text \<open>Copying the identity extension into a response (lines 80 to 81 and 128 to 129).\<close>

definition copy_identity :: "dict \<Rightarrow> dict \<Rightarrow> py_error + dict" where
  "copy_identity message response =
     (case has_identity (extensions_or_empty message) of
        Inl err \<Rightarrow> Inl err
      | Inr False \<Rightarrow> Inr response
      | Inr True \<Rightarrow>
          (case dict_get message ''extensions'' of
             JObj ext \<Rightarrow>
               Inr (dict_set response ''extensions''
                      (JObj (dict_set (sub_dict response ''extensions'') ''identity''
                               (dict_get ext ''identity''))))
           | _ \<Rightarrow> Inl (TypeError ''indices must be integers'')))"

definition build_echo_response :: "worker_env \<Rightarrow> dict \<Rightarrow> py_error + json" where
  "build_echo_response w message =
     (case py_get (dict_get_default message ''payload'' (JObj [])) ''text'' (JStr '''') of
        Inl err \<Rightarrow> Inl err
      | Inr text_v \<Rightarrow>
          (case py_get (dict_get_default message ''extensions'' (JObj [])) ''identity'' (JObj []) of
             Inl err \<Rightarrow> Inl err
           | Inr identity \<Rightarrow>
               (case py_get identity ''actor_id'' (JStr ''unknown'') of
                  Inl err \<Rightarrow> Inl err
                | Inr actor_id \<Rightarrow>
                    (let response =
                           [(''protocol_version'', JStr PROTOCOL_VERSION),
                            (''message_id'', dict_get message ''message_id''),
                            (''intent'', JStr ''echo_response''),
                            (''payload'', JObj [(''text'', JStr (py_str (worker_repr w) text_v)),
                                                (''handled_by'', JStr (NODE_ID w)),
                                                (''actor'', actor_id)]),
                            (''extensions'', JObj [])]
                     in case copy_identity message response of
                          Inl err \<Rightarrow> Inl err
                        | Inr response1 \<Rightarrow>
                            map_sum id JObj
                              (ensure_trace response1 (dict_get message ''message_id'')
                                 (Some ''terminal.echo.worker''))))))"

definition DEFAULT_SYSTEM_PROMPTS :: "(string \<times> string) list" where
  "DEFAULT_SYSTEM_PROMPTS =
     [(''general'', ''You are the BrainDrive general assistant node. Answer clearly and concisely.''),
      (''builder'', ''You are the BrainDrive builder node. Provide implementation-first guidance.'')]"

definition build_chat_response :: "worker_env \<Rightarrow> dict \<Rightarrow> py_error + json" where
  "build_chat_response w message =
     (let ext = extensions_or_empty message;
          llm = (case ext of JObj d \<Rightarrow> dict_get_default d ''llm'' (JObj []) | _ \<Rightarrow> JObj []);
          llm_get = (\<lambda>k dflt. case llm of JObj d \<Rightarrow> py_str (worker_repr w) (dict_get_default d k (JStr dflt))
                              | _ \<Rightarrow> dflt)
      in case py_get (dict_get_default message ''payload'' (JObj [])) ''text'' (JStr '''') of
           Inl err \<Rightarrow> Inl err
         | Inr text_v \<Rightarrow>
             (let node = llm_get ''node'' ''general'';
                  model = llm_get ''model'' (DEFAULT_CHAT_MODEL w);
                  nid = llm_get ''node_id'' (''node.assistant.'' @ node);
                  default_prompt =
                    (case map_of DEFAULT_SYSTEM_PROMPTS node of
                       Some p \<Rightarrow> p
                     | None \<Rightarrow> ''You are the BrainDrive general assistant node. Answer clearly and concisely.'');
                  system_prompt = llm_get ''system_prompt'' default_prompt;
                  ollama_req =
                    JObj [(''model'', JStr model),
                          (''messages'',
                             JList [JObj [(''role'', JStr ''system''), (''content'', JStr system_prompt)],
                                    JObj [(''role'', JStr ''user''),
                                          (''content'', JStr (py_str (worker_repr w) text_v))]]),
                          (''stream'', JBool False)]
              in case ollama_chat w ollama_req of
                   Inl err \<Rightarrow> Inl err
                 | Inr ollama_resp \<Rightarrow>
                     (let content =
                            (case ollama_resp of
                               JObj r \<Rightarrow>
                                 (case dict_get_default r ''message'' (JObj []) of
                                    JObj message_obj \<Rightarrow>
                                      py_str (worker_repr w)
                                        (dict_get_default message_obj ''content'' (JStr ''''))
                                  | _ \<Rightarrow> [])
                             | _ \<Rightarrow> []);
                          response =
                            [(''protocol_version'', JStr PROTOCOL_VERSION),
                             (''message_id'', dict_get message ''message_id''),
                             (''intent'', JStr ''chat_response''),
                             (''payload'', JObj [(''text'', JStr content),
                                                 (''handled_by'', JStr (NODE_ID w)),
                                                 (''node'', JStr node),
                                                 (''node_id'', JStr nid),
                                                 (''model'', JStr model)]),
                             (''extensions'', JObj [])]
                      in case copy_identity message response of
                           Inl err \<Rightarrow> Inl err
                         | Inr response1 \<Rightarrow>
                             map_sum id JObj
                               (ensure_trace response1 (dict_get message ''message_id'')
                                  (Some ''terminal.echo.worker.chat'')))))"

text \<open>The name of an exception's class and its text, for the error the worker builds
  from a caught exception.\<close>

fun error_class :: "py_error \<Rightarrow> string" where
  "error_class (ValueError t) = ''ValueError''"
| "error_class (TypeError t) = ''TypeError''"
| "error_class (AttributeError t) = ''AttributeError''"
| "error_class (KeyError t) = ''KeyError''"
| "error_class (RuntimeError t) = ''RuntimeError''"

fun error_text :: "py_error \<Rightarrow> string" where
  "error_text (ValueError t) = t"
| "error_text (TypeError t) = t"
| "error_text (AttributeError t) = t"
| "error_text (KeyError t) = t"
| "error_text (RuntimeError t) = t"

text \<open>The \<^verbatim>\<open>try\<close> block of a first delivery (lines 233 to 252): the response, built for
  the intent or made from the exception that was caught, and the state after the
  \<^verbatim>\<open>worker_error\<close> event, if one is recorded.\<close>

definition try_build :: "worker_env \<Rightarrow> dict \<Rightarrow> string \<Rightarrow> pipeline \<Rightarrow> json \<times> pipeline" where
  "try_build w message message_id p =
     (let intent = py_str (worker_repr w) (dict_get_default message ''intent'' (JStr ''''));
          built =
            (if intent = ''chat'' then map_sum id (\<lambda>r. (r, False)) (build_chat_response w message)
             else if intent = ''echo'' then map_sum id (\<lambda>r. (r, False)) (build_echo_response w message)
             else Inr (make_error (worker_uuid w) ''E_NO_ROUTE''
                         (''Unsupported intent for worker: '' @ intent) (JStr message_id) False [],
                       True))
      in case built of
           Inr (r, unsupported) \<Rightarrow>
             (r, if unsupported
                 then log_event w message_id ''worker_error''
                        [(''node_id'', JStr (NODE_ID w)), (''code'', JStr ''E_NO_ROUTE'')] p
                 else p)
         | Inl exc \<Rightarrow>
             (make_error (worker_uuid w) ''E_NODE_UNAVAILABLE''
                (''LLM processing failed: '' @ error_class exc) (JStr message_id) True
                [(''error'', JStr (error_text exc)),
                 (''ollama_base_url'', JStr (OLLAMA_BASE_URL w))],
              log_event w message_id ''worker_error''
                [(''node_id'', JStr (NODE_ID w)), (''code'', JStr ''E_NODE_UNAVAILABLE'')] p))"

text \<open>The work of a first delivery (lines 231 to 257): set the side-effect key, build
  the response, cache it, record completion, post the result.\<close>

definition do_work :: "worker_env \<Rightarrow> dict \<Rightarrow> string \<Rightarrow> int \<Rightarrow> pipeline \<Rightarrow> py_error option \<times> pipeline" where
  "do_work w message message_id attempt p =
     (let side_effect_key = ''bdp:side_effect:'' @ NODE_ID w @ '':'' @ message_id;
          cached_response_key = ''bdp:node_response:'' @ NODE_ID w @ '':'' @ message_id;
          p1 = redis_set side_effect_key (Text ''1'') p;
          built = try_build w message message_id p1;
          response = fst built;
          p3 = redis_set cached_response_key (JsonText response) (snd built);
          p4 = log_event w message_id ''worker_completed''
                 [(''node_id'', JStr (NODE_ID w)), (''attempt'', JInt attempt),
                  (''intent'', (case response of JObj r \<Rightarrow> dict_get r ''intent'' | _ \<Rightarrow> JNull))] p3
      in send_result w message_id response attempt False False p4)"

text \<open>A duplicate delivery (lines 184 to 192). \<^verbatim>\<open>json_loads\<close> raises \<^verbatim>\<open>ValueError\<close> on a
  cached text that is not the serialisation of a JSON object.\<close>

definition replay_duplicate :: "worker_env \<Rightarrow> string \<Rightarrow> int \<Rightarrow> pipeline \<Rightarrow> py_error option \<times> pipeline" where
  "replay_duplicate w message_id attempt p =
     (let cached_response_key = ''bdp:node_response:'' @ NODE_ID w @ '':'' @ message_id;
          loaded =
            (case redis_kv p cached_response_key of
               None \<Rightarrow>
                 Inr (make_error (worker_uuid w) ''E_NODE_ERROR''
                        (''Duplicate delivery but no cached response for '' @ NODE_ID w)
                        (JStr message_id) False [])
             | Some (Text t) \<Rightarrow>
                 if t = [] then
                   Inr (make_error (worker_uuid w) ''E_NODE_ERROR''
                          (''Duplicate delivery but no cached response for '' @ NODE_ID w)
                          (JStr message_id) False [])
                 else Inl (ValueError ''JSON payload must decode to an object'')
             | Some (JsonText j) \<Rightarrow>
                 if is_dict j then Inr j
                 else Inl (ValueError ''JSON payload must decode to an object''))
      in case loaded of
           Inl err \<Rightarrow> (Some err, p)
         | Inr response \<Rightarrow>
             send_result w message_id response attempt True False
               (log_event w message_id ''duplicate_delivery''
                  [(''node_id'', JStr (NODE_ID w)), (''attempt'', JInt attempt)] p))"

text \<open>A failing delivery (lines 194 to 229): retry while \<^verbatim>\<open>attempt + 1 < max_attempts\<close>,
  then dead-letter. The sleep of \<^verbatim>\<open>RETRY_DELAY_SEC\<close> before the republication has no
  effect on the state.\<close>

definition fail_delivery :: "worker_env \<Rightarrow> dict \<Rightarrow> string \<Rightarrow> int \<Rightarrow> int \<Rightarrow> pipeline
     \<Rightarrow> py_error option \<times> pipeline" where
  "fail_delivery w message message_id attempt max_attempts p =
     (let next_attempt = attempt + 1 in
      if next_attempt < max_attempts then
        (let retry_envelope =
               JObj [(''message'', JObj message), (''node_id'', JStr (NODE_ID w)),
                     (''routing_key'', JStr ''echo''), (''attempt'', JInt next_attempt),
                     (''max_attempts'', JInt max_attempts)];
             p1 = publish_json EX_CAPABILITY ''echo'' retry_envelope p
         in (None, log_event w message_id ''retry_scheduled''
                     [(''node_id'', JStr (NODE_ID w)), (''attempt'', JInt next_attempt)] p1))
      else
        (let cached_response_key = ''bdp:node_response:'' @ NODE_ID w @ '':'' @ message_id;
             response = make_error (worker_uuid w) E_NODE_TIMEOUT (NODE_ID w @ '' exceeded max attempts'')
                          (JStr message_id) True
                          [(''node_id'', JStr (NODE_ID w)), (''attempt'', JInt next_attempt)];
             dead_letter_entry =
               JObj [(''message'', JObj message), (''node_id'', JStr (NODE_ID w)),
                     (''attempt'', JInt next_attempt), (''dead_lettered'', JBool True),
                     (''error'', response)];
             p1 = publish_json EX_DLQ ''echo'' dead_letter_entry p;
             p2 = log_event w message_id ''worker_dead_lettered''
                    [(''node_id'', JStr (NODE_ID w)), (''attempt'', JInt next_attempt)] p1;
             p3 = redis_set cached_response_key (JsonText response) p2
         in send_result w message_id response next_attempt False True p3))"

text \<open>\<^verbatim>\<open>process_delivery(channel, body)\<close> on the parsed body. The result is the exception
  that escapes, if any (the consumer then rejects the delivery and the broker delivers
  it again), and the state reached.\<close>

definition process_delivery :: "worker_env \<Rightarrow> json \<Rightarrow> pipeline \<Rightarrow> py_error option \<times> pipeline" where
  "process_delivery w body p =
     (case body of
        JObj envelope \<Rightarrow>
          (case py_int (dict_get_default envelope ''attempt'' (JInt 0)) of
             Inl err \<Rightarrow> (Some err, p)
           | Inr attempt \<Rightarrow>
               (case py_int (dict_get_default envelope ''max_attempts'' (JInt (MAX_ATTEMPTS w))) of
                  Inl err \<Rightarrow> (Some err, p)
                | Inr max_attempts \<Rightarrow>
                    (case dict_get envelope ''message'' of
                       JObj message \<Rightarrow>
                         (let message_id = py_str (worker_repr w)
                                             (dict_get_default message ''message_id'' (JStr ''''))
                          in if message_id = [] then (None, p)
                             else
                               (let p1 = log_event w message_id ''worker_received''
                                           [(''node_id'', JStr (NODE_ID w)), (''attempt'', JInt attempt)] p;
                                    idempotency_key = ''bdp:idempotency:'' @ NODE_ID w @ '':'' @ message_id;
                                    cached_response_key = ''bdp:node_response:'' @ NODE_ID w @ '':'' @ message_id
                                in if dict_get message ''protocol_version'' \<noteq> JStr PROTOCOL_VERSION then
                                     (let response = make_error (worker_uuid w) E_UNSUPPORTED_PROTOCOL
                                                       (NODE_ID w @ '' supports protocol '' @ PROTOCOL_VERSION)
                                                       (JStr message_id) False []
                                      in send_result w message_id response attempt False False
                                           (redis_set cached_response_key (JsonText response) p1))
                                   else
                                     (case has_identity (extensions_or_empty message) of
                                        Inl err \<Rightarrow> (Some err, p1)
                                      | Inr False \<Rightarrow>
                                          (let response = make_error (worker_uuid w) E_REQUIRED_EXTENSION_MISSING
                                                            ''Missing required extension(s): identity''
                                                            (JStr message_id) False
                                                            [(''missing'', JList [JStr ''identity''])];
                                               p2 = redis_set cached_response_key (JsonText response) p1;
                                               p3 = log_event w message_id ''worker_error''
                                                      [(''node_id'', JStr (NODE_ID w)),
                                                       (''code'', JStr E_REQUIRED_EXTENSION_MISSING)] p2
                                           in send_result w message_id response attempt False False p3)
                                      | Inr True \<Rightarrow>
                                          (case py_get (dict_get_default message ''payload'' (JObj []))
                                                  ''force_error'' (JBool False) of
                                             Inl err \<Rightarrow> (Some err, p1)
                                           | Inr fe \<Rightarrow>
                                               if truthy fe then
                                                 fail_delivery w message message_id attempt max_attempts p1
                                               else if redis_kv p1 idempotency_key \<noteq> None then
                                                 replay_duplicate w message_id attempt p1
                                               else
                                                 do_work w message message_id attempt
                                                   (redis_set idempotency_key (Text ''1'') p1)))))
                     | _ \<Rightarrow> (None, p))))
      | _ \<Rightarrow> (Some (ValueError ''JSON payload must decode to an object''), p))"

text \<open>The router's side: \<^verbatim>\<open>redis_set_status\<close> and \<^verbatim>\<open>RouterHandler._handle_worker_result\<close>,
  on the parsed body of the request, with the router's clock, UUID and \<open>repr\<close>.\<close>

definition status_text :: "(json \<Rightarrow> string) \<Rightarrow> json \<Rightarrow> redis_value" where
  "status_text repr v = (case v of JObj d \<Rightarrow> JsonText v | JList xs \<Rightarrow> JsonText v | _ \<Rightarrow> Text (py_str repr v))"

definition redis_set_status :: "(json \<Rightarrow> string) \<Rightarrow> string \<Rightarrow> string \<Rightarrow> string \<Rightarrow> dict \<Rightarrow> pipeline \<Rightarrow> pipeline" where
  "redis_set_status repr ts message_id state extra p =
     (let payload = [(''message_id'', Text message_id), (''state'', Text state), (''updated_at'', Text ts)];
          payload1 = fold (\<lambda>(k, v) acc. AList.update k (status_text repr v) acc) extra payload;
          key = ''bdp:status:'' @ message_id
      in p\<lparr>redis_status := (redis_status p)
             (key := fold (\<lambda>(k, v) acc. AList.update k v acc) payload1 (redis_status p key))\<rparr>)"

definition handle_worker_result :: "(json \<Rightarrow> string) \<Rightarrow> string \<Rightarrow> string \<Rightarrow> json \<Rightarrow> pipeline
     \<Rightarrow> (py_error + json) \<times> pipeline" where
  "handle_worker_result repr ts uuid body_v p =
     (case body_v of
        JObj body \<Rightarrow>
          (let message_id = py_str repr (dict_get_default body ''message_id'' (JStr ''''));
               nid = py_str repr (dict_get_default body ''node_id'' (JStr ''unknown''));
               dead_lettered = truthy (dict_get_default body ''dead_lettered'' (JBool False));
               duplicate = truthy (dict_get_default body ''duplicate'' (JBool False))
           in case py_int (dict_get_default body ''attempt'' (JInt 0)) of
                Inl err \<Rightarrow> (Inl err, p)
              | Inr attempt \<Rightarrow>
                  if message_id = [] then
                    (Inr (JObj [(''ok'', JBool False), (''error'', JStr ''missing_message_id'')]), p)
                  else
                    (let response =
                           (if looks_like_bdp3 (dict_get body ''response'') then dict_get body ''response''
                            else make_error uuid ''E_NODE_ERROR''
                                   (''Worker returned invalid BDP response: '' @ nid)
                                   (JStr message_id) False [(''node_id'', JStr nid)]);
                         response_intent = (case response of JObj r \<Rightarrow> dict_get r ''intent'' | _ \<Rightarrow> JNull);
                         state = (if response_intent = JStr ''error''
                                  then (if dead_lettered then ''dlq'' else ''error'')
                                  else ''completed'');
                         p1 = redis_set_status repr ts message_id state
                                [(''node_id'', JStr nid), (''response'', response),
                                 (''details'', JObj [(''attempt'', JInt attempt),
                                                     (''duplicate'', JBool duplicate),
                                                     (''dead_lettered'', JBool dead_lettered)])] p;
                         details = [(''node_id'', JStr nid), (''attempt'', JInt attempt),
                                    (''duplicate'', JBool duplicate),
                                    (''dead_lettered'', JBool dead_lettered),
                                    (''response_intent'', response_intent)];
                         p2 = redis_append_event ts message_id ''worker_result'' details p1;
                         p3 = publish_log message_id ''worker_result'' details p2
                     in (Inr (JObj [(''ok'', JBool True)]), p3)))
      | _ \<Rightarrow> (Inr (JObj [(''ok'', JBool False), (''error'', JStr ''bad_json'')]), p))"

text \<open>\<^verbatim>\<open>redis_get_events\<close> and \<^verbatim>\<open>RouterHandler._handle_debug_idempotency\<close>: the side-effect
  count and the number of \<^verbatim>\<open>duplicate_delivery\<close> events of a message. The key is built
  with the node id \<^verbatim>\<open>terminal.echo\<close>, as in the source.\<close>

definition redis_get_events :: "string \<Rightarrow> pipeline \<Rightarrow> dict list" where
  "redis_get_events message_id p =
     concat (map (\<lambda>row. case row of JObj d \<Rightarrow> [d] | _ \<Rightarrow> [])
               (redis_events p (''bdp:events:'' @ message_id)))"

definition duplicate_event_count :: "string \<Rightarrow> pipeline \<Rightarrow> nat" where
  "duplicate_event_count message_id p =
     length (filter (\<lambda>e. dict_get e ''event'' = JStr ''duplicate_delivery'')
               (redis_get_events message_id p))"

definition side_effect_count :: "string \<Rightarrow> pipeline \<Rightarrow> py_error + int" where
  "side_effect_count message_id p =
     (case redis_kv p (''bdp:side_effect:terminal.echo:'' @ message_id) of
        None \<Rightarrow> Inr 0
      | Some (Text t) \<Rightarrow> if t = [] then Inr 0 else py_int (JStr t)
      | Some (JsonText j) \<Rightarrow>
          (case j of JInt n \<Rightarrow> Inr n | _ \<Rightarrow> Inl (ValueError ''invalid literal for int()'')))"

definition handle_debug_idempotency :: "string \<Rightarrow> pipeline \<Rightarrow> py_error + json" where
  "handle_debug_idempotency message_id p =
     (case side_effect_count message_id p of
        Inl err \<Rightarrow> Inl err
      | Inr n \<Rightarrow>
          Inr (JObj [(''ok'', JBool True), (''message_id'', JStr message_id),
                     (''side_effect_count'', JInt n),
                     (''duplicate_event_count'', JInt (int (duplicate_event_count message_id p)))]))"

text \<open>
  The deliveries the idempotency gate is about: the body is an envelope whose counters
  convert, whose message has a non-empty id and the protocol version of the worker and
  carries the identity extension, and whose payload is a dictionary. \<open>simulates_failure\<close>
  tells whether the payload asks for the simulated failure.
\<close>

definition passes_checks :: "worker_env \<Rightarrow> json \<Rightarrow> dict \<Rightarrow> string \<Rightarrow> int \<Rightarrow> int \<Rightarrow> bool" where
  "passes_checks w body message message_id attempt max_attempts =
     (case body of
        JObj envelope \<Rightarrow>
          py_int (dict_get_default envelope ''attempt'' (JInt 0)) = Inr attempt
          \<and> py_int (dict_get_default envelope ''max_attempts'' (JInt (MAX_ATTEMPTS w))) = Inr max_attempts
          \<and> dict_get envelope ''message'' = JObj message
          \<and> py_str (worker_repr w) (dict_get_default message ''message_id'' (JStr [])) = message_id
          \<and> message_id \<noteq> []
          \<and> dict_get message ''protocol_version'' = JStr PROTOCOL_VERSION
          \<and> has_identity (extensions_or_empty message) = Inr True
          \<and> is_dict (dict_get_default message ''payload'' (JObj []))
      | _ \<Rightarrow> False)"

definition simulates_failure :: "dict \<Rightarrow> bool" where
  "simulates_failure message =
     truthy (dict_get_default (sub_dict message ''payload'') ''force_error'' (JBool False))"


section \<open>Scenario data\<close>









definition test_gate_env :: gate_env where
  "test_gate_env =
     \<lparr>gate_now_iso = ''t9'', gate_uuid = ''resp-uuid'', gate_request_uuid = ''req-uuid'',
      gate_repr = (\<lambda>_. ''?'')\<rparr>"

text \<open>An approval gate holding one request, \<^verbatim>\<open>appr-1\<close>, in the given status.\<close>

definition test_gate :: "string \<Rightarrow> ApprovalGateNode" where
  "test_gate current_status =
     \<lparr>approvals =
        [(''requests'',
          JObj [(''appr-1'',
                 JObj [(''request_id'', JStr ''appr-1''),
                       (''intent_being_guarded'', JStr ''memory.write.propose''),
                       (''changes'', JList [JObj [(''path'', JStr ''notes.md'')]]),
                       (''status'', JStr current_status),
                       (''requested_at'', JStr ''t0''),
                       (''resolved_at'', JStr ''t5''),
                       (''decision'', JStr current_status),
                       (''decision_note'', JStr ''''),
                       (''decided_by'', JStr ''owner'')])])],
      gate_disk = \<lparr>log_lines = (\<lambda>_. []), state_files = Map.empty\<rparr>\<rparr>"

definition resolve_message :: "string \<Rightarrow> json \<Rightarrow> dict" where
  "resolve_message request_id decision =
     [(''protocol_version'', JStr ''0.1''), (''message_id'', JStr ''m-2''),
      (''intent'', JStr ''approval.resolve''),
      (''payload'', JObj [(''request_id'', JStr request_id), (''decision'', decision),
                          (''decided_by'', JStr ''reviewer'')])]"


text \<open>The worker with its default settings, and the envelope the router enqueues for an
  \<^verbatim>\<open>echo\<close> message with an identity, at a given attempt.\<close>

definition test_worker :: worker_env where
  "test_worker =
     \<lparr>NODE_ID = ''terminal.echo'', MAX_ATTEMPTS = 3, OLLAMA_BASE_URL = ''http://localhost:11434'',
      DEFAULT_CHAT_MODEL = ''ministral-3:8b'', worker_now_iso = ''t1'', worker_uuid = ''w-uuid'',
      worker_repr = (\<lambda>_. ''?''), router_reachable = True,
      ollama_chat = (\<lambda>_. Inl (RuntimeError ''HTTP POST failed''))\<rparr>"

definition echo_message :: "bool \<Rightarrow> dict" where
  "echo_message force =
     [(''protocol_version'', JStr ''0.1''), (''message_id'', JStr ''m-7''), (''intent'', JStr ''echo''),
      (''payload'', JObj ([(''text'', JStr ''hi'')] @ (if force then [(''force_error'', JBool True)] else []))),
      (''extensions'', JObj [(''identity'', JObj [(''actor_id'', JStr ''u1'')])])]"

definition echo_envelope :: "bool \<Rightarrow> int \<Rightarrow> json" where
  "echo_envelope force attempt =
     JObj [(''message'', JObj (echo_message force)), (''node_id'', JStr ''terminal.echo''),
           (''routing_key'', JStr ''echo''), (''attempt'', JInt attempt), (''max_attempts'', JInt 3)]"

definition empty_pipeline :: pipeline where
  "empty_pipeline =
     \<lparr>redis_kv = Map.empty, redis_events = (\<lambda>_. []), redis_status = (\<lambda>_. []),
      published = [], posted = []\<rparr>"



chapter \<open>Properties\<close>

section \<open>Evaluation rules for the Python built-ins\<close>

lemmas py_eval =
  dict_get_def dict_get_default_def dict_has_def dict_set_def dict_setdefault_def
  lower_def lower_char_def strip_def is_space_def

text \<open>The envelopes \<^verbatim>\<open>make_error\<close> and \<^verbatim>\<open>make_response\<close> build, written out: on a message
  they have just built, \<^verbatim>\<open>ensure_trace\<close> adds a trace of depth 1 with an empty path.\<close>

lemma make_error_eq:
  "make_error u c msg parent r d =
     JObj [(''protocol_version'', JStr ''0.1''), (''message_id'', JStr u), (''intent'', JStr ''error''),
           (''payload'', JObj [(''error'', JObj [(''code'', JStr c), (''message'', JStr msg),
                                                  (''retryable'', JBool r), (''details'', JObj d)])]),
           (''extensions'',
              JObj (if truthy parent
                    then [(''trace'', JObj [(''parent_message_id'', parent), (''depth'', JInt 1),
                                            (''path'', JList [])])]
                    else []))]"
  by (simp add: make_error_def ensure_trace_def ensure_extensions_def py_eval Let_def PROTOCOL_VERSION_def)


lemma is_error_with_make_error [simp]:
  "is_error_with code (make_error u c msg parent r d) \<longleftrightarrow> c = code"
  by (auto simp: is_error_with_def error_code_def make_error_eq dict_get_def)

section \<open>Dictionaries and traces\<close>

lemma dict_get_set: "dict_get (dict_set d k v) k' = (if k' = k then v else dict_get d k')"
  by (simp add: dict_get_def dict_set_def update_conv')

lemma dict_get_default_set:
  "dict_get_default (dict_set d k v) k' dflt = (if k' = k then v else dict_get_default d k' dflt)"
  by (simp add: dict_get_default_def dict_set_def update_conv')

lemma dict_has_set: "dict_has (dict_set d k v) k' \<longleftrightarrow> k' = k \<or> dict_has d k'"
  by (simp add: dict_has_def dict_set_def update_conv')

lemma dict_get_setdefault:
  "dict_get (dict_setdefault d k v) k' = (if k' = k then dict_get_default d k v else dict_get d k')"
  by (auto simp: dict_setdefault_def dict_get_default_def dict_get_def dict_has_def dict_set_def
      update_conv')

lemma dict_get_setdefault_same:
  "dict_get (dict_setdefault d k v) k = dict_get_default d k v"
  by (auto simp: dict_setdefault_def dict_get_default_def dict_get_def dict_has_def dict_set_def
      update_conv')

lemma dict_get_default_setdefault:
  "k' \<noteq> k \<Longrightarrow> dict_get_default (dict_setdefault d k v) k' dflt = dict_get_default d k' dflt"
  by (simp add: dict_setdefault_def dict_get_default_set)

lemma dict_get_absent: "\<not> dict_has d k \<Longrightarrow> dict_get d k = JNull"
  by (auto simp: dict_has_def dict_get_def)

lemma trace_of_set_extensions:
  "trace_of (JObj (dict_set m ''extensions'' (JObj (dict_set ext ''trace'' (JObj t))))) = t"
  by (simp add: trace_of_def dict_get_set)

text \<open>What \<^verbatim>\<open>ensure_trace\<close> with a hop does to the trace, when it returns.\<close>

lemma ensure_trace_hop:
  assumes "ensure_trace m parent (Some hop) = Inr out" and "hop \<noteq> []"
  shows "dict_get (trace_of (JObj out)) ''path'' = JList (trace_path (JObj m) @ [JStr hop])
       \<and> dict_get (trace_of (JObj out)) ''depth'' = JInt (trace_depth (JObj m) + 1)"
proof -
  define m1 where "m1 = ensure_extensions m"
  define parent' where "parent' = (if truthy parent then parent else dict_get m1 ''message_id'')"
  define dflt where "dflt = JObj [(''parent_message_id'', parent'), (''depth'', JInt 0), (''path'', JList [])]"
  define ext1 where "ext1 = (\<lambda>ext. dict_setdefault ext ''trace'' dflt)"
  define trace3 where "trace3 = (\<lambda>trace. dict_setdefault (dict_setdefault (dict_setdefault trace
                          ''parent_message_id'' parent') ''depth'' (JInt 0)) ''path'' (JList []))"
  from assms obtain ext trace d path where
        ext: "dict_get m1 ''extensions'' = JObj ext"
    and trace: "dict_get (ext1 ext) ''trace'' = JObj trace"
    and d: "py_int (dict_get (trace3 trace) ''depth'') = Inr d"
    and path: "dict_get (dict_set (trace3 trace) ''depth'' (JInt (d + 1))) ''path'' = JList path"
    and out: "out = dict_set m1 ''extensions''
                (JObj (dict_set (ext1 ext) ''trace''
                   (JObj (dict_set (dict_set (trace3 trace) ''depth'' (JInt (d + 1)))
                            ''path'' (JList (path @ [JStr hop]))))))"
    unfolding ensure_trace_def Let_def m1_def [symmetric] parent'_def [symmetric] dflt_def [symmetric]
      ext1_def trace3_def
    by (auto split: json.splits sum.splits)
  define trace4 where "trace4 = dict_set (trace3 trace) ''depth'' (JInt (d + 1))"
  note path = path [folded trace4_def] and out = out [folded trace4_def]
  have t_out: "trace_of (JObj out) = dict_set trace4 ''path'' (JList (path @ [JStr hop]))"
    by (simp add: out trace_of_set_extensions)
  text \<open>The trace the message came with.\<close>
  have ext_m: "dict_get m ''extensions'' = JObj ext \<or> (ext = [] \<and> \<not> is_dict (dict_get m ''extensions''))"
  proof (cases "\<not> dict_has m ''extensions'' \<or> dict_get m ''extensions'' = JNull")
    case True
    then have "m1 = dict_set m ''extensions'' (JObj [])"
      by (simp add: m1_def ensure_extensions_def)
    then have "ext = []" using ext by (simp add: dict_get_set)
    moreover have "dict_get m ''extensions'' = JNull"
      using True by (auto simp: dict_get_absent)
    ultimately show ?thesis by simp
  next
    case False
    then have "m1 = m" by (simp add: m1_def ensure_extensions_def)
    then show ?thesis using ext by simp
  qed
  have t_in: "trace_of (JObj m) = trace \<or> (trace_of (JObj m) = [] \<and> dflt = JObj trace)"
  proof (cases "dict_has ext ''trace''")
    case True
    then have "dict_get ext ''trace'' = JObj trace"
      using trace by (simp add: ext1_def dict_setdefault_def)
    moreover from True have "ext \<noteq> []" by (auto simp: dict_has_def)
    ultimately show ?thesis using ext_m by (auto simp: trace_of_def)
  next
    case False
    then have "dflt = JObj trace"
      using trace by (simp add: ext1_def dict_setdefault_def dict_get_set)
    moreover have "dict_get ext ''trace'' = JNull"
      using False by (auto simp: dict_has_def dict_get_def)
    then have "trace_of (JObj m) = []"
      using ext_m by (cases "dict_get m ''extensions''") (auto simp: trace_of_def)
    ultimately show ?thesis by simp
  qed
  have depth3': "dict_get (trace3 trace) ''depth'' = dict_get_default trace ''depth'' (JInt 0)"
    by (simp add: trace3_def dict_get_setdefault dict_get_default_setdefault)
  have depth3: "dict_get (trace3 trace) ''depth'' = dict_get_default (trace_of (JObj m)) ''depth'' (JInt 0)"
    using t_in unfolding depth3' by (auto simp: dflt_def dict_get_default_def)
  have path4: "dict_get trace4 ''path'' = dict_get_default trace ''path'' (JList [])"
    by (simp add: trace4_def trace3_def dict_get_set dict_get_setdefault dict_get_default_setdefault)
  have path_in: "path = trace_path (JObj m)"
  proof (cases "dict_has trace ''path''")
    case True
    then have "dict_get trace ''path'' = JList path"
      using path path4 by (auto simp: dict_get_default_def dict_get_def dict_has_def split: option.splits)
    then show ?thesis
      using t_in by (auto simp: trace_path_def dflt_def dict_get_def)
  next
    case False
    then have p: "path = []" "dict_get trace ''path'' = JNull"
      using path path4 by (auto simp: dict_get_default_def dict_get_def dict_has_def split: option.splits)
    then show ?thesis
      using t_in by (auto simp: trace_path_def dflt_def dict_get_def)
  qed
  show ?thesis
    using d depth3 by (simp add: t_out dict_get_set trace4_def path_in trace_depth_def)
qed

section \<open>Secret scrubbing on every write\<close>

lemma scrub_no_raw_secret: "no_raw_secret (scrub_sensitive v)"
  by (induction v rule: scrub_sensitive.induct) (auto simp: list_all_iff split: if_splits)

lemma scrub_scrubbed_of: "scrubbed_of v (scrub_sensitive v)"
  by (induction v rule: scrub_sensitive.induct)
     (auto simp: list_all2_map2 split: if_splits intro!: list.rel_refl_strong)

lemma scrubbed_of_obj_unique:
  assumes "list_all2 (\<lambda>(key, item) (key', item').
             key' = key \<and>
             (if is_sensitive key then item' = JStr ''<redacted>'' else scrubbed_of item item'))
            kvs kws"
    and "\<And>key item w. (key, item) \<in> set kvs \<Longrightarrow> \<not> is_sensitive key \<Longrightarrow>
           scrubbed_of item w \<Longrightarrow> w = scrub_sensitive item"
  shows "kws = map (\<lambda>(key, item).
                  if is_sensitive key then (key, JStr ''<redacted>'')
                  else (key, scrub_sensitive item)) kvs"
  using assms
proof (induction kvs kws rule: list_all2_induct)
  case Nil
  then show ?case by simp
next
  case (Cons x xs y ys)
  obtain k v where x: "x = (k, v)" by (cases x)
  obtain k' v' where y: "y = (k', v')" by (cases y)
  have rest: "ys = map (\<lambda>(key, item).
                  if is_sensitive key then (key, JStr ''<redacted>'')
                  else (key, scrub_sensitive item)) xs"
  proof (rule Cons.IH)
    fix key item w
    assume "(key, item) \<in> set xs" "\<not> is_sensitive key" "scrubbed_of item w"
    then show "w = scrub_sensitive item" using Cons.prems [of key item w] by simp
  qed
  have first: "y = (if is_sensitive k then (k, JStr ''<redacted>'') else (k, scrub_sensitive v))"
    using Cons.hyps(1) Cons.prems [of k v v'] x y by (simp split: if_splits)
  show ?case using rest first x by simp
qed

lemma scrubbed_of_list_unique:
  assumes "list_all2 scrubbed_of xs ys"
    and "\<And>x w. x \<in> set xs \<Longrightarrow> scrubbed_of x w \<Longrightarrow> w = scrub_sensitive x"
  shows "ys = map scrub_sensitive xs"
  using assms by (induction xs ys rule: list_all2_induct) simp_all

lemma scrubbed_of_unique: "scrubbed_of v w \<Longrightarrow> w = scrub_sensitive v"
proof (induction v arbitrary: w rule: scrub_sensitive.induct)
  case (1 kvs)
  from "1.prems" obtain kws where w: "w = JObj kws" by (cases w) simp_all
  show ?case using scrubbed_of_obj_unique [of kvs kws] "1.IH" "1.prems" w by simp
next
  case (2 xs)
  from "2.prems" obtain ys where w: "w = JList ys" by (cases w) simp_all
  show ?case using scrubbed_of_list_unique [of xs ys] "2.IH" "2.prems" w by simp
qed simp_all

text \<open>
  Claim C5. Whatever value is handed to \<^verbatim>\<open>append_log\<close> or \<^verbatim>\<open>save_state\<close>, what
  reaches the disk is that value with the value of every sensitive key (a key whose
  lower-cased name contains \<^verbatim>\<open>api_key\<close>, \<^verbatim>\<open>authorization\<close>, \<^verbatim>\<open>token\<close> or \<^verbatim>\<open>secret\<close>),
  at any depth of dictionaries and lists, replaced by the literal \<^verbatim>\<open><redacted>\<close>, and with
  every other key and every non-mapping value unchanged; the written value holds no
  raw secret. The log line is appended after the lines already there, and the scrubbed
  value is the only value that fits that description.
\<close>

theorem persistence_writes_are_scrubbed:
  "(\<exists>w. log_lines (append_log chan item d) chan = log_lines d chan @ [w]
        \<and> scrubbed_of item w \<and> no_raw_secret w
        \<and> (\<forall>w'. scrubbed_of item w' \<longrightarrow> w' = w))
   \<and> (\<exists>w. state_files (save_state nm v d) nm = Some w
        \<and> scrubbed_of v w \<and> no_raw_secret w
        \<and> (\<forall>w'. scrubbed_of v w' \<longrightarrow> w' = w))"
proof (intro conjI)
  show "\<exists>w. log_lines (append_log chan item d) chan = log_lines d chan @ [w]
        \<and> scrubbed_of item w \<and> no_raw_secret w
        \<and> (\<forall>w'. scrubbed_of item w' \<longrightarrow> w' = w)"
  proof (intro exI [of _ "scrub_sensitive item"] conjI allI impI)
    show "log_lines (append_log chan item d) chan = log_lines d chan @ [scrub_sensitive item]"
      by (simp add: append_log_def)
    show "scrubbed_of item (scrub_sensitive item)" by (rule scrub_scrubbed_of)
    show "no_raw_secret (scrub_sensitive item)" by (rule scrub_no_raw_secret)
    show "w' = scrub_sensitive item" if "scrubbed_of item w'" for w'
      using that by (rule scrubbed_of_unique)
  qed
  show "\<exists>w. state_files (save_state nm v d) nm = Some w
        \<and> scrubbed_of v w \<and> no_raw_secret w
        \<and> (\<forall>w'. scrubbed_of v w' \<longrightarrow> w' = w)"
  proof (intro exI [of _ "scrub_sensitive v"] conjI allI impI)
    show "state_files (save_state nm v d) nm = Some (scrub_sensitive v)"
      by (simp add: save_state_def)
    show "scrubbed_of v (scrub_sensitive v)" by (rule scrub_scrubbed_of)
    show "no_raw_secret (scrub_sensitive v)" by (rule scrub_no_raw_secret)
    show "w' = scrub_sensitive v" if "scrubbed_of v w'" for w'
      using that by (rule scrubbed_of_unique)
  qed
qed

text \<open>The theorem at a nested value: a token inside a list inside a dictionary.\<close>

theorem persistence_writes_are_scrubbed_witness:
  "log_lines
     (append_log ''router''
        (JObj [(''payload'', JList [JObj [(''Auth_Token'', JStr ''s3cr3t''), (''n'', JInt 1)]]),
               (''X-API_KEY'', JObj [(''v'', JStr ''k'')])])
        \<lparr>log_lines = (\<lambda>_. []), state_files = Map.empty\<rparr>) ''router''
   = [JObj [(''payload'', JList [JObj [(''Auth_Token'', JStr ''<redacted>''), (''n'', JInt 1)]]),
            (''X-API_KEY'', JStr ''<redacted>'')]]"
proof -
  let ?item = "JObj [(''payload'', JList [JObj [(''Auth_Token'', JStr ''s3cr3t''), (''n'', JInt 1)]]),
               (''X-API_KEY'', JObj [(''v'', JStr ''k'')])]"
  let ?d = "\<lparr>log_lines = (\<lambda>_. []), state_files = Map.empty\<rparr>"
  from persistence_writes_are_scrubbed [of "''router''" ?item ?d]
  obtain w where w: "log_lines (append_log ''router'' ?item ?d) ''router'' = log_lines ?d ''router'' @ [w]"
    and u: "\<forall>w'. scrubbed_of ?item w' \<longrightarrow> w' = w"
    by blast
  have "scrubbed_of ?item
          (JObj [(''payload'', JList [JObj [(''Auth_Token'', JStr ''<redacted>''), (''n'', JInt 1)]]),
            (''X-API_KEY'', JStr ''<redacted>'')])"
    by (simp add: is_sensitive_def SENSITIVE_KEYS_def lower_def lower_char_def sublist_code)
  with u have "w = JObj [(''payload'', JList [JObj [(''Auth_Token'', JStr ''<redacted>''), (''n'', JInt 1)]]),
            (''X-API_KEY'', JStr ''<redacted>'')]"
    by blast
  with w show ?thesis by simp
qed

section \<open>The selection order\<close>




text \<open>The sorted order of a set of nodes with distinct ids does not depend on the order
  in which the registry lists them.\<close>

lemma sorted_candidates_unique:
  assumes "distinct (map (\<lambda>r. node_id (descriptor r)) xs)" and "mset ys = mset xs"
  shows "sort_key node_sort_key ys = sort_key node_sort_key xs"
proof (rule sort_key_inj_key_eq)
  show "mset ys = mset (sort_key node_sort_key xs)" using assms(2) by simp
  have "set ys = set xs" using assms(2) by (rule mset_eq_setD)
  moreover have "inj_on node_sort_key (set xs)"
    using assms(1) by (auto simp: inj_on_def distinct_map node_sort_key_def split: prod.splits)
  ultimately show "inj_on node_sort_key (set ys)" by simp
  show "sorted (map node_sort_key (sort_key node_sort_key xs))" by simp
qed




section \<open>Heartbeats and expired leases\<close>






section \<open>Resolving an approval request\<close>

lemma get_request_store: "get_request (store_request state rid rcd) rid = Some rcd"
  by (auto simp: get_request_def store_request_def dict_get_default_def dict_get_def dict_set_def
      dict_setdefault_def dict_has_def update_conv' sub_dict_def split: option.splits json.splits)

lemma handle_resolve_eq:
  assumes "dict_get_default message ''payload'' (JObj []) = JObj payload"
    and "strip (py_str (gate_repr g) (dict_get_default payload ''request_id'' (JStr ''''))) = rid"
    and "rid \<noteq> []"
    and "lower (strip (py_str (gate_repr g) (dict_get_default payload ''decision'' (JStr '''')))) = decision"
    and "decision = ''approved'' \<or> decision = ''denied''"
    and "get_request (approvals node) rid = Some rcd"
    and "rcd \<noteq> []"
    and "rcd' = dict_set (dict_set (dict_set (dict_set (dict_set rcd
                  ''status'' (JStr decision))
                  ''decision'' (JStr decision))
                  ''resolved_at'' (JStr (gate_now_iso g)))
                  ''decision_note'' (JStr (py_str (gate_repr g)
                                       (dict_get_default payload ''decision_note'' (JStr ''''))))
                  ) ''decided_by'' (JStr (py_str (gate_repr g)
                                       (dict_get_default payload ''decided_by'' (JStr ''owner''))))"
  shows "handle_resolve g message node =
     (make_response (gate_uuid g) ''approval.resolved''
        (JObj (dict_set rcd' ''confirmation''
                 (JObj [(''required'', JBool True), (''status'', JStr decision),
                        (''request_id'', JStr rid)])))
        (dict_get message ''message_id'') None,
      gate_save (node\<lparr>approvals := store_request (approvals node) rid rcd'\<rparr>))"
  using assms by (auto simp: handle_resolve_def Let_def)

text \<open>
  Claim C10. \<^verbatim>\<open>approval.resolve\<close> never looks at the status of the record it resolves.
  For a request whose payload names an existing record (a record is a non-empty
  dictionary) and carries a decision that is \<^verbatim>\<open>approved\<close> or \<^verbatim>\<open>denied\<close> once stripped and
  lower-cased, the node overwrites \<^verbatim>\<open>status\<close>, \<^verbatim>\<open>decision\<close>, \<^verbatim>\<open>resolved_at\<close>, \<^verbatim>\<open>decision_note\<close>
  and \<^verbatim>\<open>decided_by\<close>, keeps every other field, stores and saves the record, and answers
  \<^verbatim>\<open>approval.resolved\<close> with the new record and a confirmation block echoing the decision.
  No hypothesis constrains the record's current status.
\<close>

theorem approval_resolve_ignores_status:
  assumes "dict_get message ''intent'' = JStr ''approval.resolve''"
    and "dict_get_default message ''payload'' (JObj []) = JObj payload"
    and "strip (py_str (gate_repr g) (dict_get_default payload ''request_id'' (JStr ''''))) = rid"
    and "rid \<noteq> []"
    and "lower (strip (py_str (gate_repr g) (dict_get_default payload ''decision'' (JStr '''')))) = decision"
    and "decision = ''approved'' \<or> decision = ''denied''"
    and "get_request (approvals node) rid = Some rcd"
    and "rcd \<noteq> []"
  shows "\<exists>rcd' node'.
           gate_handle g message node =
             (make_response (gate_uuid g) ''approval.resolved''
                (JObj (dict_set rcd' ''confirmation''
                         (JObj [(''required'', JBool True), (''status'', JStr decision),
                                (''request_id'', JStr rid)])))
                (dict_get message ''message_id'') None, node')
         \<and> get_request (approvals node') rid = Some rcd'
         \<and> state_files (gate_disk node') ''approvals'' = Some (scrub_sensitive (JObj (approvals node')))
         \<and> dict_get rcd' ''status'' = JStr decision
         \<and> dict_get rcd' ''decision'' = JStr decision
         \<and> dict_get rcd' ''resolved_at'' = JStr (gate_now_iso g)
         \<and> dict_get rcd' ''decision_note'' =
               JStr (py_str (gate_repr g) (dict_get_default payload ''decision_note'' (JStr '''')))
         \<and> dict_get rcd' ''decided_by'' =
               JStr (py_str (gate_repr g) (dict_get_default payload ''decided_by'' (JStr ''owner'')))
         \<and> (\<forall>k. k \<notin> {''status'', ''decision'', ''resolved_at'', ''decision_note'', ''decided_by''}
                \<longrightarrow> dict_get rcd' k = dict_get rcd k)"
proof -
  define rcd' where "rcd' = dict_set (dict_set (dict_set (dict_set (dict_set rcd
                  ''status'' (JStr decision))
                  ''decision'' (JStr decision))
                  ''resolved_at'' (JStr (gate_now_iso g)))
                  ''decision_note'' (JStr (py_str (gate_repr g)
                                       (dict_get_default payload ''decision_note'' (JStr ''''))))
                  ) ''decided_by'' (JStr (py_str (gate_repr g)
                                       (dict_get_default payload ''decided_by'' (JStr ''owner''))))"
  define node' where "node' = gate_save (node\<lparr>approvals := store_request (approvals node) rid rcd'\<rparr>)"
  have run: "gate_handle g message node =
             (make_response (gate_uuid g) ''approval.resolved''
                (JObj (dict_set rcd' ''confirmation''
                         (JObj [(''required'', JBool True), (''status'', JStr decision),
                                (''request_id'', JStr rid)])))
                (dict_get message ''message_id'') None, node')"
    using handle_resolve_eq [OF assms(2-8) rcd'_def] assms(1)
    by (simp add: gate_handle_def node'_def)
  have stored: "get_request (approvals node') rid = Some rcd'"
    by (simp add: node'_def gate_save_def get_request_store)
  have saved: "state_files (gate_disk node') ''approvals'' = Some (scrub_sensitive (JObj (approvals node')))"
    by (simp add: node'_def gate_save_def save_state_def)
  have fields: "dict_get rcd' ''status'' = JStr decision"
      "dict_get rcd' ''decision'' = JStr decision"
      "dict_get rcd' ''resolved_at'' = JStr (gate_now_iso g)"
      "dict_get rcd' ''decision_note'' =
               JStr (py_str (gate_repr g) (dict_get_default payload ''decision_note'' (JStr '''')))"
      "dict_get rcd' ''decided_by'' =
               JStr (py_str (gate_repr g) (dict_get_default payload ''decided_by'' (JStr ''owner'')))"
    by (simp_all add: rcd'_def dict_get_set)
  have rest: "\<forall>k. k \<notin> {''status'', ''decision'', ''resolved_at'', ''decision_note'', ''decided_by''}
                \<longrightarrow> dict_get rcd' k = dict_get rcd k"
    by (simp add: rcd'_def dict_get_set)
  show ?thesis using run stored saved fields rest by blast
qed

text \<open>A request already approved is flipped to denied (the decision is given as
  \<^verbatim>\<open>" Denied "\<close>).\<close>

theorem approval_resolve_ignores_status_witness:
  "dict_get (the (get_request (approvals (test_gate ''approved'')) ''appr-1'')) ''status'' = JStr ''approved''
   \<and> (\<exists>rcd' node'.
        gate_handle test_gate_env (resolve_message ''appr-1'' (JStr '' Denied '')) (test_gate ''approved'')
          = (make_response ''resp-uuid'' ''approval.resolved''
               (JObj (dict_set rcd' ''confirmation''
                        (JObj [(''required'', JBool True), (''status'', JStr ''denied''),
                               (''request_id'', JStr ''appr-1'')])))
               (JStr ''m-2'') None, node')
        \<and> get_request (approvals node') ''appr-1'' = Some rcd'
        \<and> dict_get rcd' ''status'' = JStr ''denied''
        \<and> dict_get rcd' ''decided_by'' = JStr ''reviewer'')"
proof -
  let ?msg = "resolve_message ''appr-1'' (JStr '' Denied '')"
  let ?payload = "[(''request_id'', JStr ''appr-1''), (''decision'', JStr '' Denied ''),
                   (''decided_by'', JStr ''reviewer'')]"
  let ?rcd = "[(''request_id'', JStr ''appr-1''),
               (''intent_being_guarded'', JStr ''memory.write.propose''),
               (''changes'', JList [JObj [(''path'', JStr ''notes.md'')]]),
               (''status'', JStr ''approved''),
               (''requested_at'', JStr ''t0''),
               (''resolved_at'', JStr ''t5''),
               (''decision'', JStr ''approved''),
               (''decision_note'', JStr ''''),
               (''decided_by'', JStr ''owner'')]"
  have h1: "dict_get ?msg ''intent'' = JStr ''approval.resolve''"
    by (simp add: resolve_message_def dict_get_def)
  have h2: "dict_get_default ?msg ''payload'' (JObj []) = JObj ?payload"
    by (simp add: resolve_message_def dict_get_default_def)
  have h3: "strip (py_str (gate_repr test_gate_env) (dict_get_default ?payload ''request_id'' (JStr '''')))
              = ''appr-1''"
    by (simp add: dict_get_default_def strip_def is_space_def)
  have h4: "''appr-1'' \<noteq> []" by simp
  have h5: "lower (strip (py_str (gate_repr test_gate_env) (dict_get_default ?payload ''decision'' (JStr ''''))))
              = ''denied''"
    by (simp add: dict_get_default_def strip_def is_space_def lower_def lower_char_def)
  have h6: "''denied'' = ''approved'' \<or> ''denied'' = ''denied''" by simp
  have h7: "get_request (approvals (test_gate ''approved'')) ''appr-1'' = Some ?rcd"
    by (simp add: test_gate_def get_request_def dict_get_default_def dict_get_def)
  have h8: "?rcd \<noteq> []" by simp
  have old: "dict_get (the (get_request (approvals (test_gate ''approved'')) ''appr-1'')) ''status''
               = JStr ''approved''"
    by (simp add: h7 dict_get_def)
  have msg_id: "dict_get ?msg ''message_id'' = JStr ''m-2''"
    by (simp add: resolve_message_def dict_get_def)
  have env: "gate_uuid test_gate_env = ''resp-uuid''"
    "py_str (gate_repr test_gate_env) (dict_get_default ?payload ''decided_by'' (JStr ''owner'')) = ''reviewer''"
    by (simp_all add: test_gate_env_def dict_get_default_def)
  from approval_resolve_ignores_status [OF h1 h2 h3 h4 h5 h6 h7 h8]
  show ?thesis unfolding msg_id env using old by blast
qed

section \<open>The asynchronous worker: retries, dead letters and the idempotency gate\<close>

lemmas pipeline_defs = log_event_def publish_log_def publish_json_def redis_append_event_def
  redis_set_def send_result_def

lemma force_error_value:
  assumes "is_dict (dict_get_default message ''payload'' (JObj []))"
  shows "py_get (dict_get_default message ''payload'' (JObj [])) ''force_error'' (JBool False)
           = Inr (dict_get_default (sub_dict message ''payload'') ''force_error'' (JBool False))"
proof (cases "dict_get_default message ''payload'' (JObj [])")
  case (JObj d)
  then have "sub_dict message ''payload'' = d"
    by (auto simp: sub_dict_def dict_get_default_def dict_get_def split: option.splits)
  with JObj show ?thesis by (simp add: py_get_def)
qed (use assms in simp_all)

lemma process_delivery_failing:
  assumes "passes_checks w body message mid attempt max_attempts" and "simulates_failure message"
  shows "process_delivery w body p =
           fail_delivery w message mid attempt max_attempts
             (log_event w mid ''worker_received''
                [(''node_id'', JStr (NODE_ID w)), (''attempt'', JInt attempt)] p)"
proof -
  from assms(1) obtain envelope where body: "body = JObj envelope"
    by (cases body) (simp_all add: passes_checks_def)
  from assms(1) have fe: "py_get (dict_get_default message ''payload'' (JObj [])) ''force_error'' (JBool False)
           = Inr (dict_get_default (sub_dict message ''payload'') ''force_error'' (JBool False))"
    by (intro force_error_value) (simp add: passes_checks_def body)
  show ?thesis
    using assms fe by (simp add: passes_checks_def body process_delivery_def Let_def simulates_failure_def)
qed


lemma looks_like_bdp3_make_error: "looks_like_bdp3 (make_error u c m parent r d)"
  by (simp add: looks_like_bdp3_def make_error_eq dict_get_def dict_has_def)

lemma worker_result_dlq:
  assumes "mid \<noteq> []"
  shows "map_of (redis_status
           (snd (handle_worker_result repr ts u
              (JObj [(''message_id'', JStr mid), (''node_id'', JStr nid),
                 (''response'', make_error u' c m parent r d), (''attempt'', JInt a),
                 (''duplicate'', JBool dup), (''dead_lettered'', JBool True)]) p))
           (''bdp:status:'' @ mid)) ''state'' = Some (Text ''dlq'')"
  using assms
  by (simp add: handle_worker_result_def Let_def dict_get_default_def dict_get_def
      looks_like_bdp3_make_error redis_set_status_def publish_log_def publish_json_def
      redis_append_event_def update_conv' status_text_def make_error_eq)

lemma failing_delivery_retry:
  assumes "passes_checks w body message mid attempt max_attempts" and "simulates_failure message"
    and retry: "attempt + 1 < max_attempts"
  shows "\<exists>p'. process_delivery w body p = (None, p')
              \<and> published p' = published p @
                  [(EX_LOG, '''',
                    JObj [(''event'', JStr ''worker_received''), (''message_id'', JStr mid),
                          (''details'', JObj [(''node_id'', JStr (NODE_ID w)), (''attempt'', JInt attempt)])]),
                   (EX_CAPABILITY, ''echo'',
                    JObj [(''message'', JObj message), (''node_id'', JStr (NODE_ID w)),
                          (''routing_key'', JStr ''echo''), (''attempt'', JInt (attempt + 1)),
                          (''max_attempts'', JInt max_attempts)]),
                   (EX_LOG, '''',
                    JObj [(''event'', JStr ''retry_scheduled''), (''message_id'', JStr mid),
                          (''details'', JObj [(''node_id'', JStr (NODE_ID w)),
                                              (''attempt'', JInt (attempt + 1))])])]
              \<and> map (\<lambda>e. dict_get e ''event'') (redis_get_events mid p')
                  = map (\<lambda>e. dict_get e ''event'') (redis_get_events mid p)
                    @ [JStr ''worker_received'', JStr ''retry_scheduled'']
              \<and> posted p' = posted p
              \<and> redis_kv p' = redis_kv p"
  using retry
  by (simp add: process_delivery_failing [OF assms(1,2)] fail_delivery_def Let_def pipeline_defs
      redis_get_events_def dict_get_def)


lemma failing_delivery_dead_letter:
  assumes "passes_checks w body message mid attempt max_attempts" and "simulates_failure message"
    and dlq: "\<not> attempt + 1 < max_attempts" and up: "router_reachable w"
  shows "\<exists>p' response result.
              process_delivery w body p = (None, p')
              \<and> response = make_error (worker_uuid w) ''E_NODE_TIMEOUT''
                             (NODE_ID w @ '' exceeded max attempts'') (JStr mid) True
                             [(''node_id'', JStr (NODE_ID w)), (''attempt'', JInt (attempt + 1))]
              \<and> is_error_with ''E_NODE_TIMEOUT'' response
              \<and> published p' = published p @
                  [(EX_LOG, '''',
                    JObj [(''event'', JStr ''worker_received''), (''message_id'', JStr mid),
                          (''details'', JObj [(''node_id'', JStr (NODE_ID w)), (''attempt'', JInt attempt)])]),
                   (EX_DLQ, ''echo'',
                    JObj [(''message'', JObj message), (''node_id'', JStr (NODE_ID w)),
                          (''attempt'', JInt (attempt + 1)), (''dead_lettered'', JBool True),
                          (''error'', response)]),
                   (EX_LOG, '''',
                    JObj [(''event'', JStr ''worker_dead_lettered''), (''message_id'', JStr mid),
                          (''details'', JObj [(''node_id'', JStr (NODE_ID w)),
                                              (''attempt'', JInt (attempt + 1))])])]
              \<and> map (\<lambda>e. dict_get e ''event'') (redis_get_events mid p')
                  = map (\<lambda>e. dict_get e ''event'') (redis_get_events mid p)
                    @ [JStr ''worker_received'', JStr ''worker_dead_lettered'']
              \<and> redis_kv p' = (redis_kv p)
                    (''bdp:node_response:'' @ NODE_ID w @ '':'' @ mid \<mapsto> JsonText response)
              \<and> result = JObj [(''message_id'', JStr mid), (''node_id'', JStr (NODE_ID w)),
                                (''response'', response), (''attempt'', JInt (attempt + 1)),
                                (''duplicate'', JBool False), (''dead_lettered'', JBool True)]
              \<and> posted p' = posted p @ [result]
              \<and> (\<forall>repr ts u q.
                    map_of (redis_status (snd (handle_worker_result repr ts u result q))
                              (''bdp:status:'' @ mid)) ''state'' = Some (Text ''dlq''))"
proof -
  have mid: "mid \<noteq> []" using assms(1) by (cases body) (simp_all add: passes_checks_def)
  show ?thesis
    using dlq up worker_result_dlq [OF mid]
    by (simp add: process_delivery_failing [OF assms(1,2)] fail_delivery_def Let_def pipeline_defs
        redis_get_events_def dict_get_def E_NODE_TIMEOUT_def)

qed

text \<open>
  Claim C7. A delivery that passes the worker's checks and simulates the retryable failure
  (\<^verbatim>\<open>force_error\<close>) is retried while \<^verbatim>\<open>attempt + 1 < max_attempts\<close>: the worker republishes
  the envelope to the capability exchange with the attempt incremented and appends
  \<^verbatim>\<open>retry_scheduled\<close>, posts nothing and leaves the store alone. Once the attempts are
  exhausted it publishes the envelope with the error to the DLQ exchange, appends
  \<^verbatim>\<open>worker_dead_lettered\<close>, caches the error response, whose code is \<^verbatim>\<open>E_NODE_TIMEOUT\<close>, and
  posts the result with \<^verbatim>\<open>dead_lettered = true\<close>; the router's handler of that result sets
  the state \<^verbatim>\<open>dlq\<close>. (The sleep before the republication is not part of the state.)
\<close>

theorem force_error_retries_then_dead_letters:
  assumes "passes_checks w body message mid attempt max_attempts" and "simulates_failure message"
  shows "(attempt + 1 < max_attempts \<longrightarrow>
           (\<exists>p'. process_delivery w body p = (None, p')
              \<and> published p' = published p @
                  [(EX_LOG, '''',
                    JObj [(''event'', JStr ''worker_received''), (''message_id'', JStr mid),
                          (''details'', JObj [(''node_id'', JStr (NODE_ID w)), (''attempt'', JInt attempt)])]),
                   (EX_CAPABILITY, ''echo'',
                    JObj [(''message'', JObj message), (''node_id'', JStr (NODE_ID w)),
                          (''routing_key'', JStr ''echo''), (''attempt'', JInt (attempt + 1)),
                          (''max_attempts'', JInt max_attempts)]),
                   (EX_LOG, '''',
                    JObj [(''event'', JStr ''retry_scheduled''), (''message_id'', JStr mid),
                          (''details'', JObj [(''node_id'', JStr (NODE_ID w)),
                                              (''attempt'', JInt (attempt + 1))])])]
              \<and> map (\<lambda>e. dict_get e ''event'') (redis_get_events mid p')
                  = map (\<lambda>e. dict_get e ''event'') (redis_get_events mid p)
                    @ [JStr ''worker_received'', JStr ''retry_scheduled'']
              \<and> posted p' = posted p
              \<and> redis_kv p' = redis_kv p))
       \<and> (\<not> attempt + 1 < max_attempts \<longrightarrow> router_reachable w \<longrightarrow>
           (\<exists>p' response result.
              process_delivery w body p = (None, p')
              \<and> response = make_error (worker_uuid w) ''E_NODE_TIMEOUT''
                             (NODE_ID w @ '' exceeded max attempts'') (JStr mid) True
                             [(''node_id'', JStr (NODE_ID w)), (''attempt'', JInt (attempt + 1))]
              \<and> is_error_with ''E_NODE_TIMEOUT'' response
              \<and> published p' = published p @
                  [(EX_LOG, '''',
                    JObj [(''event'', JStr ''worker_received''), (''message_id'', JStr mid),
                          (''details'', JObj [(''node_id'', JStr (NODE_ID w)), (''attempt'', JInt attempt)])]),
                   (EX_DLQ, ''echo'',
                    JObj [(''message'', JObj message), (''node_id'', JStr (NODE_ID w)),
                          (''attempt'', JInt (attempt + 1)), (''dead_lettered'', JBool True),
                          (''error'', response)]),
                   (EX_LOG, '''',
                    JObj [(''event'', JStr ''worker_dead_lettered''), (''message_id'', JStr mid),
                          (''details'', JObj [(''node_id'', JStr (NODE_ID w)),
                                              (''attempt'', JInt (attempt + 1))])])]
              \<and> map (\<lambda>e. dict_get e ''event'') (redis_get_events mid p')
                  = map (\<lambda>e. dict_get e ''event'') (redis_get_events mid p)
                    @ [JStr ''worker_received'', JStr ''worker_dead_lettered'']
              \<and> redis_kv p' = (redis_kv p)
                    (''bdp:node_response:'' @ NODE_ID w @ '':'' @ mid \<mapsto> JsonText response)
              \<and> result = JObj [(''message_id'', JStr mid), (''node_id'', JStr (NODE_ID w)),
                                (''response'', response), (''attempt'', JInt (attempt + 1)),
                                (''duplicate'', JBool False), (''dead_lettered'', JBool True)]
              \<and> posted p' = posted p @ [result]
              \<and> (\<forall>repr ts u q.
                    map_of (redis_status (snd (handle_worker_result repr ts u result q))
                              (''bdp:status:'' @ mid)) ''state'' = Some (Text ''dlq''))))"
  using failing_delivery_retry [OF assms, of p] failing_delivery_dead_letter [OF assms, of p]
  by blast

lemma echo_passes: "passes_checks test_worker (echo_envelope force a) (echo_message force) ''m-7'' a 3"
  by (simp add: passes_checks_def echo_envelope_def echo_message_def test_worker_def
      dict_get_default_def dict_get_def has_identity_def extensions_or_empty_def dict_has_def
      PROTOCOL_VERSION_def)

lemma echo_fails: "simulates_failure (echo_message force) = force"
  by (simp add: simulates_failure_def echo_message_def sub_dict_def dict_get_default_def dict_get_def)

theorem force_error_retries_then_dead_letters_witness:
  "\<exists>p' response.
     process_delivery test_worker (echo_envelope True 2) empty_pipeline = (None, p')
     \<and> is_error_with ''E_NODE_TIMEOUT'' response
     \<and> posted p' = [JObj [(''message_id'', JStr ''m-7''), (''node_id'', JStr ''terminal.echo''),
                           (''response'', response), (''attempt'', JInt 3),
                           (''duplicate'', JBool False), (''dead_lettered'', JBool True)]]
     \<and> map_of (redis_status (snd (handle_worker_result (\<lambda>_. ''?'') ''t2'' ''r-uuid'' (last (posted p')) p'))
                 ''bdp:status:m-7'') ''state'' = Some (Text ''dlq'')"
proof -
  have pc: "passes_checks test_worker (echo_envelope True 2) (echo_message True) ''m-7'' 2 3"
    by (rule echo_passes)
  have sf: "simulates_failure (echo_message True)" by (simp add: echo_fails)
  have ex: "\<not> (2::int) + 1 < 3" by simp
  have up: "router_reachable test_worker" by (simp add: test_worker_def)
  from force_error_retries_then_dead_letters [OF pc sf, of empty_pipeline] ex up
  obtain p' response result where run: "process_delivery test_worker (echo_envelope True 2) empty_pipeline = (None, p')"
    and err: "is_error_with ''E_NODE_TIMEOUT'' response"
    and res: "result = JObj [(''message_id'', JStr ''m-7''), (''node_id'', JStr (NODE_ID test_worker)),
                                (''response'', response), (''attempt'', JInt (2 + 1)),
                                (''duplicate'', JBool False), (''dead_lettered'', JBool True)]"
    and post: "posted p' = posted empty_pipeline @ [result]"
    and st: "\<forall>repr ts u q.
                    map_of (redis_status (snd (handle_worker_result repr ts u result q))
                              (''bdp:status:'' @ ''m-7'')) ''state'' = Some (Text ''dlq'')"
    by blast
  have post': "posted p' = [JObj [(''message_id'', JStr ''m-7''), (''node_id'', JStr ''terminal.echo''),
                           (''response'', response), (''attempt'', JInt 3),
                           (''duplicate'', JBool False), (''dead_lettered'', JBool True)]]"
    using post res by (simp add: empty_pipeline_def test_worker_def)
  have "map_of (redis_status (snd (handle_worker_result (\<lambda>_. ''?'') ''t2'' ''r-uuid'' (last (posted p')) p'))
                 ''bdp:status:m-7'') ''state'' = Some (Text ''dlq'')"
    using st post by simp
  with run err post' show ?thesis by blast
qed

text \<open>Scenario S5, delivery by delivery: the envelope a failing delivery republishes is
  the envelope of the next attempt, so attempts 0 and 1 are retried and attempt 2 is
  dead-lettered.\<close>

lemma retry_republishes_next_attempt:
  assumes "a + 1 < 3"
  shows "published (snd (process_delivery test_worker (echo_envelope True a) p)) ! (length (published p) + 1)
           = (EX_CAPABILITY, ''echo'', echo_envelope True (a + 1))"
proof -
  have pc: "passes_checks test_worker (echo_envelope True a) (echo_message True) ''m-7'' a 3"
    by (rule echo_passes)
  have sf: "simulates_failure (echo_message True)" by (simp add: echo_fails)
  from failing_delivery_retry [OF pc sf assms, of p]
  obtain p' where "process_delivery test_worker (echo_envelope True a) p = (None, p')"
    and "published p' = published p @
                  [(EX_LOG, '''',
                    JObj [(''event'', JStr ''worker_received''), (''message_id'', JStr ''m-7''),
                          (''details'', JObj [(''node_id'', JStr (NODE_ID test_worker)), (''attempt'', JInt a)])]),
                   (EX_CAPABILITY, ''echo'',
                    JObj [(''message'', JObj (echo_message True)), (''node_id'', JStr (NODE_ID test_worker)),
                          (''routing_key'', JStr ''echo''), (''attempt'', JInt (a + 1)),
                          (''max_attempts'', JInt 3)]),
                   (EX_LOG, '''',
                    JObj [(''event'', JStr ''retry_scheduled''), (''message_id'', JStr ''m-7''),
                          (''details'', JObj [(''node_id'', JStr (NODE_ID test_worker)),
                                              (''attempt'', JInt (a + 1))])])]"
    by blast
  then show ?thesis
    by (simp add: nth_append echo_envelope_def test_worker_def)
qed















lemma map_sum_flag [simp]:
  "map_sum id (\<lambda>r. (r, False)) x = Inr (a, b) \<longleftrightarrow> x = Inr a \<and> \<not> b"
  by (cases x) auto












section \<open>What the dispatch loop does to the state\<close>

lemma stamp_disclosure_trace:
  assumes "stamp_disclosure disc out0 = Inr out"
  shows "trace_of (JObj out) = trace_of (JObj out0)"
proof (cases "disc = None \<or> disc = Some []")
  case True
  then show ?thesis using assms by (auto simp: stamp_disclosure_def)
next
  case False
  then obtain d where d: "disc = Some d" "d \<noteq> []" by auto
  define out1 where "out1 = dict_setdefault out0 ''extensions'' (JObj [])"
  from assms d obtain ext llm where ext: "dict_get out1 ''extensions'' = JObj ext"
    and out: "out = dict_set out1 ''extensions''
                (JObj (dict_set (dict_setdefault ext ''llm'' (JObj [])) ''llm'' (JObj llm)))"
    unfolding stamp_disclosure_def Let_def out1_def [symmetric]
    by (auto split: json.splits)
  have "trace_of (JObj out) = (case dict_get ext ''trace'' of JObj t \<Rightarrow> t | _ \<Rightarrow> [])"
    by (simp add: out trace_of_def dict_get_set dict_get_setdefault)
  moreover have "trace_of (JObj out0) = (case dict_get ext ''trace'' of JObj t \<Rightarrow> t | _ \<Rightarrow> [])"
  proof (cases "dict_has out0 ''extensions''")
    case True
    then have "dict_get out0 ''extensions'' = JObj ext"
      using ext by (simp add: out1_def dict_setdefault_def)
    then show ?thesis by (simp add: trace_of_def)
  next
    case False
    then have "ext = []" "dict_get out0 ''extensions'' = JNull"
      using ext by (simp_all add: out1_def dict_setdefault_def dict_get_set dict_get_absent)
    then show ?thesis by (simp add: trace_of_def dict_get_def)
  qed
  ultimately show ?thesis by simp
qed

lemma stamp_disclosure_llm:
  assumes "stamp_disclosure (Some d) out0 = Inr out" and "d \<noteq> []"
  shows "dict_get (llm_of (JObj out)) ''provider'' = dict_get d ''provider''
       \<and> dict_get (llm_of (JObj out)) ''model'' = dict_get d ''model''
       \<and> dict_get (llm_of (JObj out)) ''provider_source'' = dict_get d ''provider_source''
       \<and> dict_get (llm_of (JObj out)) ''model_source'' = dict_get d ''model_source''"
proof -
  define out1 where "out1 = dict_setdefault out0 ''extensions'' (JObj [])"
  from assms obtain ext llm where ext: "dict_get out1 ''extensions'' = JObj ext"
    and out: "out = dict_set out1 ''extensions''
                (JObj (dict_set (dict_setdefault ext ''llm'' (JObj [])) ''llm''
                   (JObj (dict_set (dict_set (dict_set (dict_set llm
                      ''provider'' (dict_get d ''provider''))
                      ''model'' (dict_get d ''model''))
                      ''provider_source'' (dict_get d ''provider_source''))
                      ''model_source'' (dict_get d ''model_source'')))))"
    unfolding stamp_disclosure_def Let_def out1_def [symmetric]
    by (auto split: json.splits)
  show ?thesis
    by (simp add: out llm_of_def sub_dict_def dict_get_set)
qed

lemma update_health_records [simp]: "records (update_health ts nid ok lat reg) = records reg"
  by (simp add: update_health_def Let_def)

lemma after_response_frame:
  assumes "after_response e rec before response st = (oc, st')"
  shows "calls st' = calls st \<and> library_fs st' = library_fs st \<and> persistence st' = persistence st
       \<and> records (registry st') = records (registry st)"
  using assms
  by (auto simp: after_response_def mark_failure_def mark_success_def
      split: if_splits json.splits)

text \<open>One pass of the loop body either calls no one, or calls the node once with the
  outbound message; only a call can change the library.\<close>

lemma invoke_node_frame:
  assumes "invoke_node e intent outbound rec st = (oc, st')"
  shows "persistence st' = persistence st \<and> records (registry st') = records (registry st)
       \<and> (calls st' = calls st \<and> library_fs st' = library_fs st
          \<or> calls st' = calls st @ [(node_id (descriptor rec), outbound)])"
proof (cases "node_target e rec")
  case None
  then show ?thesis
    using assms unfolding invoke_node_def Let_def by auto
next
  case (Some h)
  obtain result lib' where h: "h outbound (library_fs st) = (result, lib')"
    by (cases "h outbound (library_fs st)")
  define st1 where "st1 = st\<lparr>library_fs := lib', calls := calls st @ [(node_id (descriptor rec), outbound)]\<rparr>"
  show ?thesis
  proof (cases result)
    case (Raises msg)
    then show ?thesis
      using assms Some h unfolding invoke_node_def Let_def
      by (auto simp: mark_failure_def)
  next
    case (Returns response)
    then have "after_response e rec (before_fingerprint e intent rec st) response st1 = (oc, st')"
      using assms Some h unfolding invoke_node_def Let_def st1_def
      by auto
    from after_response_frame [OF this] show ?thesis by (simp add: st1_def)
  qed
qed

lemma route_loop_calls:
  assumes "route_loop e m intent disc recs att retr st = (res, st')"
  shows "\<exists>new. calls st' = calls st @ new
           \<and> (\<forall>c \<in> set new. \<exists>out0 out.
                 ensure_trace m (dict_get m ''message_id'') (Some ''router.core'') = Inr out0
                 \<and> stamp_disclosure disc out0 = Inr out
                 \<and> snd c = JObj out
                 \<and> fst c \<in> (\<lambda>r. node_id (descriptor r)) ` set recs)"
  using assms
proof (induction recs arbitrary: att retr st)
  case Nil
  then show ?case by simp
next
  case (Cons rec recs)
  show ?case
  proof (cases "ensure_trace m (dict_get m ''message_id'') (Some ''router.core'')")
    case (Inl err)
    then show ?thesis using Cons.prems by simp
  next
    case out0: (Inr out0)
    show ?thesis
    proof (cases "stamp_disclosure disc out0")
      case (Inl err)
      then show ?thesis using Cons.prems out0 by simp
    next
      case out: (Inr out)
      define st1 where "st1 = st\<lparr>persistence :=
                              emit_event (now_iso e) ''router'' ''router.route_dispatched''
                                (JObj [(''selected_node_id'', JStr (node_id (descriptor rec))),
                                       (''intent'', JStr intent)])
                                (persistence st)\<rparr>"
      obtain oc st2 where inv: "invoke_node e intent (JObj out) rec st1 = (oc, st2)"
        by (cases "invoke_node e intent (JObj out) rec st1")
      from invoke_node_frame [OF inv]
      have step: "calls st2 = calls st \<or> calls st2 = calls st @ [(node_id (descriptor rec), JObj out)]"
        by (auto simp: st1_def)
      show ?thesis
      proof (cases oc)
        case (Return response)
        then have "st' = st2"
          using Cons.prems out0 out inv by (simp add: st1_def [symmetric] Let_def)
        then show ?thesis
          using step out0 out
          by (elim disjE) (intro exI [of _ "[]"], simp, intro exI [of _ "[(node_id (descriptor rec), JObj out)]"], simp)
      next
        case (Continue entry retryable)
        then have "route_loop e m intent disc recs (att @ [entry])
                     (retr @ (case retryable of None \<Rightarrow> [] | Some r \<Rightarrow> [r])) st2 = (res, st')"
          using Cons.prems out0 out inv by (simp add: st1_def [symmetric] Let_def)
        from Cons.IH [OF this] obtain new where new: "calls st' = calls st2 @ new"
          and each: "\<forall>c \<in> set new. \<exists>out0 out.
                 ensure_trace m (dict_get m ''message_id'') (Some ''router.core'') = Inr out0
                 \<and> stamp_disclosure disc out0 = Inr out
                 \<and> snd c = JObj out
                 \<and> fst c \<in> (\<lambda>r. node_id (descriptor r)) ` set recs"
          by blast
        from step show ?thesis
        proof
          assume "calls st2 = calls st"
          then show ?thesis using new each by (intro exI [of _ new]) auto
        next
          assume "calls st2 = calls st @ [(node_id (descriptor rec), JObj out)]"
          then show ?thesis
            using new each out0 out
            by (intro exI [of _ "(node_id (descriptor rec), JObj out) # new"]) auto
        qed
      qed
    qed
  qed
qed

lemma validate_core_error: "validate_core u message = Some err \<Longrightarrow> is_error_with E_BAD_MESSAGE err"
  by (auto simp: validate_core_def Let_def split: json.splits list.splits if_splits)

lemma check_confirmation_error:
  "check_confirmation repr u m a = Some err \<Longrightarrow> is_error_with E_CONFIRMATION_REQUIRED err"
  by (auto simp: check_confirmation_def split: if_splits)

lemma filter_for_provider_error:
  "filter_for_provider cfg u nodes intent m = (filtered, Some err, disc) \<Longrightarrow> \<exists>code. is_error_with code err"
  by (auto simp: filter_for_provider_def Let_def split: if_splits option.splits)

lemma exhausted_error_is_error: "\<exists>code. is_error_with code (exhausted_error e msg_id att retr)"
  by (auto simp: exhausted_error_def Let_def split: list.splits)

text \<open>Every run of \<^verbatim>\<open>route\<close> either stops before the loop, having at most pruned the
  registry, or enters the loop with the sorted, provider-filtered candidates.\<close>

lemma route_dispatch:
  assumes "route e message st = (res, st')"
  shows "(\<exists>resp code reg'. res = Inr resp \<and> is_error_with code resp \<and> st' = st\<lparr>registry := reg'\<rparr>
            \<and> reg' \<in> {registry st, prune_stale (now_eligible e) (registry st),
                       prune_stale (now_metadata e) (prune_stale (now_eligible e) (registry st))})
       \<or> (\<exists>m filtered disc.
             message = JObj m
           \<and> validate_core (new_uuid e) message = None
           \<and> str_field m ''protocol_version'' = PROTOCOL_VERSION
           \<and> check_confirmation (repr_of (config e)) (new_uuid e) m
                (case fst (capability_metadata (now_metadata e) (str_field m ''intent'')
                             (prune_stale (now_eligible e) (registry st))) of
                   None \<Rightarrow> False
                 | Some meta \<Rightarrow> approval_required meta) = None
           \<and> filter_for_provider (config e) (new_uuid e)
                (filter (\<lambda>rec. missing_extensions rec (str_field m ''intent'') (sub_dict m ''extensions'') = [])
                   (eligible_nodes (fst (active_records (now_eligible e) (registry st)))
                      (str_field m ''intent'') PROTOCOL_VERSION))
                (str_field m ''intent'') m = (filtered, None, disc)
           \<and> route_loop e m (str_field m ''intent'') disc (sort_key node_sort_key filtered) [] []
                (st\<lparr>registry := prune_stale (now_metadata e) (prune_stale (now_eligible e) (registry st))\<rparr>)
               = (res, st'))"
proof (cases "validate_core (new_uuid e) message")
  case (Some err)
  then have "res = Inr err" "st' = st\<lparr>registry := registry st\<rparr>"
    using assms by (simp_all add: route_def)
  moreover have "is_error_with E_BAD_MESSAGE err" using Some by (rule validate_core_error)
  ultimately show ?thesis by blast
next
  case None
  then obtain m where m: "message = JObj m"
    by (cases message) (simp_all add: validate_core_def)
  define intent where "intent = str_field m ''intent''"
  define reg1 where "reg1 = prune_stale (now_eligible e) (registry st)"
  define reg2 where "reg2 = prune_stale (now_metadata e) reg1"
  define active where "active = fst (active_records (now_eligible e) (registry st))"
  define candidates where "candidates = eligible_nodes active intent PROTOCOL_VERSION"
  define eligible where
    "eligible = filter (\<lambda>rec. missing_extensions rec intent (sub_dict m ''extensions'') = []) candidates"
  define canon where "canon = fst (capability_metadata (now_metadata e) intent reg1)"
  define approval where "approval = (case canon of
                   None \<Rightarrow> False
                 | Some meta \<Rightarrow> approval_required meta)"
  have ar: "active_records (now_eligible e) (registry st) = (active, reg1)"
    by (simp add: active_def reg1_def active_records_def Let_def)
  have cm: "capability_metadata (now_metadata e) intent reg1 = (canon, reg2)"
    by (simp add: canon_def reg2_def capability_metadata_def Let_def)
  show ?thesis
  proof (cases "str_field m ''protocol_version'' = PROTOCOL_VERSION")
    case False
    then have "\<exists>resp. res = Inr resp \<and> is_error_with E_UNSUPPORTED_PROTOCOL resp
                  \<and> st' = st\<lparr>registry := registry st\<rparr>"
      using assms None m by (auto simp: route_def Let_def)
    then show ?thesis by blast
  next
    case pv: True
    have run: "route e message st =
       (if candidates = [] then
          (Inr (make_error (new_uuid e) E_NO_ROUTE
                  (''No matching capability for intent: '' @ intent) (dict_get m ''message_id'') False []),
           st\<lparr>registry := reg1\<rparr>)
        else if eligible = [] then
          (Inr (make_error (new_uuid e) E_REQUIRED_EXTENSION_MISSING
                  ''Required protocol extension is missing for this request.''
                  (dict_get m ''message_id'') False
                  [(''missing'', JList (map JStr (sort (remdups
                      (concat (map (\<lambda>rec. missing_extensions rec intent (sub_dict m ''extensions''))
                                 candidates))))))]),
           st\<lparr>registry := reg1\<rparr>)
        else
          (case check_confirmation (repr_of (config e)) (new_uuid e) m approval of
             Some approval_error \<Rightarrow> (Inr approval_error, st\<lparr>registry := reg2\<rparr>)
           | None \<Rightarrow>
               (case filter_for_provider (config e) (new_uuid e) eligible intent m of
                  (filtered, Some provider_error, disclosure) \<Rightarrow> (Inr provider_error, st\<lparr>registry := reg2\<rparr>)
                | (filtered, None, disclosure) \<Rightarrow>
                    route_loop e m intent disclosure (sort_key node_sort_key filtered) [] []
                      (st\<lparr>registry := reg2\<rparr>))))"
      using None pv
      unfolding route_def Let_def m json.case intent_def [symmetric] ar prod.case
        RouterCore.simps cm candidates_def [symmetric] eligible_def [symmetric]
      by (simp add: cm approval_def [symmetric] candidates_def [symmetric] eligible_def [symmetric]
            cong del: option.case_cong_weak prod.case_cong_weak)
    consider (a) "candidates = []" | (b) "candidates \<noteq> []" "eligible = []"
      | (c) err where "candidates \<noteq> []" "eligible \<noteq> []"
           "check_confirmation (repr_of (config e)) (new_uuid e) m approval = Some err"
      | (d) filtered err disc where "candidates \<noteq> []" "eligible \<noteq> []"
           "check_confirmation (repr_of (config e)) (new_uuid e) m approval = None"
           "filter_for_provider (config e) (new_uuid e) eligible intent m = (filtered, Some err, disc)"
      | (f) filtered disc where "candidates \<noteq> []" "eligible \<noteq> []"
           "check_confirmation (repr_of (config e)) (new_uuid e) m approval = None"
           "filter_for_provider (config e) (new_uuid e) eligible intent m = (filtered, None, disc)"
      by (cases "check_confirmation (repr_of (config e)) (new_uuid e) m approval";
          cases "filter_for_provider (config e) (new_uuid e) eligible intent m") auto
    then show ?thesis
    proof cases
      case a
      then have "\<exists>resp. res = Inr resp \<and> is_error_with E_NO_ROUTE resp \<and> st' = st\<lparr>registry := reg1\<rparr>"
        using assms run by auto
      then show ?thesis by (auto simp: reg1_def)
    next
      case b
      then have "\<exists>resp. res = Inr resp \<and> is_error_with E_REQUIRED_EXTENSION_MISSING resp
                    \<and> st' = st\<lparr>registry := reg1\<rparr>"
        using assms run by auto
      then show ?thesis by (auto simp: reg1_def)
    next
      case c
      then have "\<exists>resp. res = Inr resp \<and> is_error_with E_CONFIRMATION_REQUIRED resp
                    \<and> st' = st\<lparr>registry := reg2\<rparr>"
        using assms run check_confirmation_error by auto
      then show ?thesis by (auto simp: reg1_def reg2_def)
    next
      case d
      from filter_for_provider_error [OF d(4)] obtain code where "is_error_with code err" by blast
      with d have "\<exists>resp. res = Inr resp \<and> is_error_with code resp \<and> st' = st\<lparr>registry := reg2\<rparr>"
        using assms run by auto
      then show ?thesis by (auto simp: reg1_def reg2_def)
    next
      case f
      then have "route_loop e m intent disc (sort_key node_sort_key filtered) [] []
                      (st\<lparr>registry := reg2\<rparr>) = (res, st')"
        using assms run by simp
      then show ?thesis
        using f None m pv
        unfolding intent_def approval_def canon_def eligible_def candidates_def active_def reg1_def reg2_def
        by (intro disjI2 exI [of _ m] exI [of _ filtered] exI [of _ disc]) simp
    qed
  qed
qed

section \<open>Confirmation of protected capabilities\<close>







end
